theory Spec2Isabelle
  imports Complex_Main
begin

section \<open>The paint component: data model\<close>

text \<open>
  The repository holds two revisions of the one React component \<^verbatim>\<open>PaintApp\<close>:
  \<^verbatim>\<open>src/components/PaintApp.js\<close> and the file kept as \<^verbatim>\<open>unnamed/part_000\<close>. Both declare
  the same handlers under the same names, so every definition below carries the suffix of
  the file it embeds: \<open>_PaintApp\<close> for \<^verbatim>\<open>src/components/PaintApp.js\<close> and \<open>_part000\<close> for
  \<^verbatim>\<open>unnamed/part_000\<close>.

  JavaScript numbers are modelled as \<^typ>\<open>real\<close>, \<^verbatim>\<open>Math.round\<close> as \<^const>\<open>round\<close>
  (both are \<open>\<lfloor>x + 1/2\<rfloor>\<close>), \<^verbatim>\<open>undefined\<close> and \<^verbatim>\<open>null\<close> as \<^const>\<open>None\<close>.
  A handler reads the state of the last render and returns the state after its
  \<^verbatim>\<open>set...\<close> calls; \<^verbatim>\<open>console.log\<close> appends to the field \<open>console\<close>.
\<close>

text \<open>The constant object \<^verbatim>\<open>SHAPES\<close>.\<close>

datatype tool = RECTANGLE | CIRCLE

text \<open>
  A shape id is the number \<^verbatim>\<open>Date.now()\<close> in \<^verbatim>\<open>src/components/PaintApp.js\<close> and the
  string \<^verbatim>\<open>`shape-${Date.now()}`\<close> in \<^verbatim>\<open>unnamed/part_000\<close>.
\<close>

datatype ident = IdNum nat | IdStr string

text \<open>
  A shape object. The fields \<open>id\<close>, \<open>type\<close> and \<open>fill\<close> are optional because
  \<^verbatim>\<open>handleTransformEnd\<close> spreads the result of \<^verbatim>\<open>shapes.find\<close>, which is
  \<^verbatim>\<open>undefined\<close> when no shape has the node's id.
\<close>

record shape =
  shape_id :: "ident option"
  shape_type :: "tool option"
  shape_x :: real
  shape_y :: real
  shape_width :: real
  shape_height :: real
  shape_radius :: real
  shape_fill :: "string option"

text \<open>The record that \<^verbatim>\<open>logShapeUpdate\<close> prints.\<close>

record logged =
  log_action :: string
  log_id :: "ident option"
  log_type :: "tool option"
  log_x :: int
  log_y :: int
  log_width :: int
  log_height :: int
  log_radius :: int
  log_fill :: "string option"

text \<open>
  The Konva node a drag-end or transform-end event targets. \<open>node_radius\<close> is
  \<^const>\<open>None\<close> for a node without a \<^verbatim>\<open>radius\<close> method (a \<^verbatim>\<open>Rect\<close>).
\<close>

record node =
  node_id :: "ident option"
  node_x :: real
  node_y :: real
  node_width :: real
  node_height :: real
  node_radius :: "real option"
  node_scaleX :: real
  node_scaleY :: real

text \<open>
  What a mouse handler reads from its event: whether \<^verbatim>\<open>e.target === e.target.getStage()\<close>,
  and \<^verbatim>\<open>getPointerPosition()\<close>, which is \<^verbatim>\<open>null\<close> when the stage has no pointer.
\<close>

record mouse_event =
  clickedOnEmpty :: bool
  pointerPosition :: "(real \<times> real) option"

text \<open>
  The component's state. \<open>transformerRef\<close> is \<^verbatim>\<open>transformerRef.current\<close>: \<^const>\<open>None\<close>
  while no \<^verbatim>\<open>Transformer\<close> is mounted, otherwise the ids of the nodes attached to it.
  \<^verbatim>\<open>unnamed/part_000\<close> adds the in-progress shape \<open>newShape\<close>.
\<close>

record app =
  shapes :: "shape list"
  selectedShape :: "shape option"
  selectedTool :: tool
  isDrawing :: bool
  transformerRef :: "ident option list option"
  console :: "logged list"

record app_part000 = app +
  newShape :: "shape option"

datatype error = TypeError

text \<open>
  A handler either returns, or throws and leaves behind the state of the updates it
  had made before the throw.
\<close>

datatype 's outcome = Returns 's | Throws error 's

fun state_of :: "'s outcome \<Rightarrow> 's" where
  "state_of (Returns s) = s"
| "state_of (Throws e s) = s"

fun returns :: "'s outcome \<Rightarrow> bool" where
  "returns (Returns s) = True"
| "returns (Throws e s) = False"

definition initial_PaintApp :: app where
  "initial_PaintApp =
     \<lparr>shapes = [], selectedShape = None, selectedTool = RECTANGLE, isDrawing = False,
      transformerRef = None, console = []\<rparr>"

definition initial_part000 :: app_part000 where
  "initial_part000 =
     \<lparr>shapes = [], selectedShape = None, selectedTool = RECTANGLE, isDrawing = False,
      transformerRef = None, console = [], newShape = None\<rparr>"

section \<open>The event logger\<close>

text \<open>\<^verbatim>\<open>v || 0\<close> on a number: \<open>0\<close> is the only falsy real.\<close>

definition or_zero :: "real \<Rightarrow> real" where
  "or_zero v = (if v = 0 then 0 else v)"

definition logShapeUpdate :: "string \<Rightarrow> shape \<Rightarrow> logged" where
  "logShapeUpdate action shape =
     \<lparr>log_action = action,
      log_id = shape_id shape,
      log_type = shape_type shape,
      log_x = round (shape_x shape),
      log_y = round (shape_y shape),
      log_width = round (or_zero (shape_width shape)),
      log_height = round (or_zero (shape_height shape)),
      log_radius = round (or_zero (shape_radius shape)),
      log_fill = shape_fill shape\<rparr>"

section \<open>Decimal rendering of the timestamp\<close>

definition digit :: "nat \<Rightarrow> char" where
  "digit d = char_of (48 + d)"

function decimal :: "nat \<Rightarrow> string" where
  "decimal n = (if n < 10 then [digit n] else decimal (n div 10) @ [digit (n mod 10)])"
  by pat_completeness auto
termination
  by (relation "measure (\<lambda>n. n)") auto

declare decimal.simps [simp del]

text \<open>Reading a decimal string back, used to show that \<^const>\<open>decimal\<close> is injective.\<close>

definition undecimal :: "string \<Rightarrow> nat" where
  "undecimal cs = foldl (\<lambda>a c. 10 * a + (of_char c - 48)) 0 cs"

section \<open>The handlers of src/components/PaintApp.js\<close>

definition handleMouseDown_PaintApp ::
  "app \<Rightarrow> mouse_event \<Rightarrow> nat \<Rightarrow> string \<Rightarrow> app outcome" where
  "handleMouseDown_PaintApp s e now colour =
     (if selectedShape s \<noteq> None then Returns s
      else case pointerPosition e of
        None \<Rightarrow> Throws TypeError s
      | Some (px, py) \<Rightarrow>
          let newShape =
            \<lparr>shape_id = Some (IdNum now), shape_type = Some (selectedTool s),
             shape_x = px, shape_y = py, shape_width = 0, shape_height = 0,
             shape_radius = 0, shape_fill = Some colour\<rparr>
          in Returns (s\<lparr>shapes := shapes s @ [newShape], isDrawing := True,
                        console := console s @ [logShapeUpdate ''create'' newShape]\<rparr>))"

definition handleMouseMove_PaintApp :: "app \<Rightarrow> mouse_event \<Rightarrow> app outcome" where
  "handleMouseMove_PaintApp s e =
     (if \<not> isDrawing s then Returns s
      else if shapes s = [] then Throws TypeError s
      else
        let lastShape = last (shapes s) in
        if shape_type lastShape = Some RECTANGLE then
          (case pointerPosition e of
             None \<Rightarrow> Throws TypeError s
           | Some (px, py) \<Rightarrow>
               let newShape = lastShape\<lparr>shape_width := px - shape_x lastShape,
                                         shape_height := py - shape_y lastShape\<rparr>
               in Returns (s\<lparr>shapes := butlast (shapes s) @ [newShape]\<rparr>))
        else if shape_type lastShape = Some CIRCLE then
          (case pointerPosition e of
             None \<Rightarrow> Throws TypeError s
           | Some (px, py) \<Rightarrow>
               let dx = px - shape_x lastShape;
                   dy = py - shape_y lastShape;
                   radius = sqrt (dx * dx + dy * dy);
                   newShape = lastShape\<lparr>shape_radius := radius\<rparr>
               in Returns (s\<lparr>shapes := butlast (shapes s) @ [newShape]\<rparr>))
        else Returns s)"

definition handleMouseUp_PaintApp :: "app \<Rightarrow> app outcome" where
  "handleMouseUp_PaintApp s =
     (if isDrawing s then
        (if shapes s = [] then Throws TypeError s
         else
           let lastShape = last (shapes s) in
           Returns (s\<lparr>console := console s @ [logShapeUpdate ''modify'' lastShape],
                      isDrawing := False\<rparr>))
      else Returns s)"

text \<open>
  \<^verbatim>\<open>transformerRef.current.nodes([shape])\<close> hands the transformer the plain shape
  object, not a Konva node. With no transformer mounted the call is skipped. With one
  mounted, Konva detaches the nodes it held and then fails on the object with a
  \<^verbatim>\<open>TypeError\<close>; \<^verbatim>\<open>setSelectedShape\<close> has already run.
\<close>

definition handleShapeSelect_PaintApp :: "app \<Rightarrow> shape \<Rightarrow> app outcome" where
  "handleShapeSelect_PaintApp s shape =
     (case transformerRef s of
        None \<Rightarrow> Returns (s\<lparr>selectedShape := Some shape\<rparr>)
      | Some ns \<Rightarrow> Throws TypeError (s\<lparr>selectedShape := Some shape, transformerRef := Some []\<rparr>))"

text \<open>The object \<^verbatim>\<open>{...undefined}\<close>; every numeric field is overwritten by the caller.\<close>

definition spread :: "shape option \<Rightarrow> shape" where
  "spread found =
     (case found of
        None \<Rightarrow> \<lparr>shape_id = None, shape_type = None, shape_x = 0, shape_y = 0,
                  shape_width = 0, shape_height = 0, shape_radius = 0, shape_fill = None\<rparr>
      | Some sh \<Rightarrow> sh)"

definition handleTransformEnd_PaintApp :: "app \<Rightarrow> node \<Rightarrow> (app \<times> node) outcome" where
  "handleTransformEnd_PaintApp s node0 =
     (let scaleX = node_scaleX node0;
          scaleY = node_scaleY node0;
          node = node0\<lparr>node_scaleX := 1, node_scaleY := 1\<rparr>;
          updatedShape = (spread (find (\<lambda>sh. shape_id sh = node_id node) (shapes s)))
            \<lparr>shape_x := node_x node,
             shape_y := node_y node,
             shape_width := node_width node * scaleX,
             shape_height := node_height node * scaleY,
             shape_radius :=
               (case node_radius node of None \<Rightarrow> 0 | Some r \<Rightarrow> r * scaleX)\<rparr>
      in Returns
           (s\<lparr>shapes :=
                 map (\<lambda>shape. if shape_id shape = shape_id updatedShape then updatedShape
                               else shape) (shapes s),
               console := console s @ [logShapeUpdate ''modify'' updatedShape]\<rparr>,
            node))"

definition handleDelete_PaintApp :: "app \<Rightarrow> app outcome" where
  "handleDelete_PaintApp s =
     (case selectedShape s of
        None \<Rightarrow> Returns s
      | Some sel \<Rightarrow>
          Returns (s\<lparr>console := console s @ [logShapeUpdate ''delete'' sel],
                     shapes := filter (\<lambda>shape. shape_id shape \<noteq> shape_id sel) (shapes s),
                     selectedShape := None\<rparr>))"

section \<open>The handlers of unnamed/part_000\<close>

definition handleMouseDown_part000 ::
  "app_part000 \<Rightarrow> mouse_event \<Rightarrow> nat \<Rightarrow> string \<Rightarrow> app_part000 outcome" where
  "handleMouseDown_part000 s e now colour =
     (let s1 = (if clickedOnEmpty e
                then s\<lparr>selectedShape := None,
                       transformerRef := map_option (\<lambda>ns. []) (transformerRef s)\<rparr>
                else s)
      in
      if selectedShape s \<noteq> None \<or> \<not> clickedOnEmpty e then Returns s1
      else case pointerPosition e of
        None \<Rightarrow> Throws TypeError s1
      | Some (px, py) \<Rightarrow>
          let shape =
            \<lparr>shape_id = Some (IdStr (''shape-'' @ decimal now)),
             shape_type = Some (selectedTool s),
             shape_x = px, shape_y = py, shape_width = 0, shape_height = 0,
             shape_radius = 0, shape_fill = Some colour\<rparr>
          in Returns (s1\<lparr>newShape := Some shape, shapes := shapes s @ [shape],
                         isDrawing := True\<rparr>))"

definition handleMouseMove_part000 :: "app_part000 \<Rightarrow> mouse_event \<Rightarrow> app_part000 outcome" where
  "handleMouseMove_part000 s e =
     (if \<not> isDrawing s then Returns s
      else case newShape s of
        None \<Rightarrow> Returns s
      | Some ns \<Rightarrow>
          if shape_type ns = Some RECTANGLE then
            (case pointerPosition e of
               None \<Rightarrow> Throws TypeError s
             | Some (px, py) \<Rightarrow>
                 let updatedShape = ns\<lparr>shape_width := px - shape_x ns,
                                        shape_height := py - shape_y ns\<rparr>
                 in Returns
                      (s\<lparr>shapes :=
                            map (\<lambda>shape. if shape_id shape = shape_id ns then updatedShape
                                          else shape) (shapes s),
                          newShape := Some updatedShape\<rparr>))
          else if shape_type ns = Some CIRCLE then
            (case pointerPosition e of
               None \<Rightarrow> Throws TypeError s
             | Some (px, py) \<Rightarrow>
                 let dx = px - shape_x ns;
                     dy = py - shape_y ns;
                     radius = sqrt (dx * dx + dy * dy);
                     updatedShape = ns\<lparr>shape_radius := radius\<rparr>
                 in Returns
                      (s\<lparr>shapes :=
                            map (\<lambda>shape. if shape_id shape = shape_id ns then updatedShape
                                          else shape) (shapes s),
                          newShape := Some updatedShape\<rparr>))
          else Returns s)"

definition handleMouseUp_part000 :: "app_part000 \<Rightarrow> app_part000 outcome" where
  "handleMouseUp_part000 s =
     (if \<not> isDrawing s then Returns s
      else case newShape s of
        None \<Rightarrow> Returns s
      | Some ns \<Rightarrow>
          Returns (s\<lparr>console := console s @ [logShapeUpdate ''create'' ns],
                     isDrawing := False, newShape := None\<rparr>))"

text \<open>
  \<^verbatim>\<open>stage.findOne('#' + shape.id)\<close> finds a node when the last render drew a shape with
  that id: the render draws every shape of the list whose type is one of the two tools.
\<close>

definition findOne :: "shape list \<Rightarrow> ident option \<Rightarrow> ident option option" where
  "findOne drawn i =
     (if \<exists>sh \<in> set drawn. shape_type sh \<noteq> None \<and> shape_id sh = i then Some i else None)"

definition handleShapeSelect_part000 ::
  "app_part000 \<Rightarrow> shape option \<Rightarrow> app_part000 outcome" where
  "handleShapeSelect_part000 s arg =
     (case arg of
        None \<Rightarrow> Returns s
      | Some shape \<Rightarrow>
          Returns (s\<lparr>selectedShape := Some shape,
                     transformerRef :=
                       (case transformerRef s of
                          None \<Rightarrow> None
                        | Some ns \<Rightarrow>
                            (case findOne (shapes s) (shape_id shape) of
                               None \<Rightarrow> Some ns
                             | Some selectedNode \<Rightarrow> Some [selectedNode]))\<rparr>))"

definition handleTransformEnd_part000 ::
  "app_part000 \<Rightarrow> node \<Rightarrow> (app_part000 \<times> node) outcome" where
  "handleTransformEnd_part000 s node0 =
     (let scaleX = node_scaleX node0;
          scaleY = node_scaleY node0;
          node = node0\<lparr>node_scaleX := 1, node_scaleY := 1\<rparr>;
          updatedShape = (spread (find (\<lambda>sh. shape_id sh = node_id node) (shapes s)))
            \<lparr>shape_x := node_x node,
             shape_y := node_y node,
             shape_width := \<bar>node_width node * scaleX\<bar>,
             shape_height := \<bar>node_height node * scaleY\<bar>,
             shape_radius :=
               (case node_radius node of None \<Rightarrow> 0 | Some r \<Rightarrow> \<bar>r * scaleX\<bar>)\<rparr>
      in Returns
           (s\<lparr>shapes :=
                 map (\<lambda>shape. if shape_id shape = shape_id updatedShape then updatedShape
                               else shape) (shapes s),
               console := console s @ [logShapeUpdate ''modify'' updatedShape]\<rparr>,
            node))"

definition handleDelete_part000 :: "app_part000 \<Rightarrow> app_part000 outcome" where
  "handleDelete_part000 s =
     (case selectedShape s of
        None \<Rightarrow> Returns s
      | Some sel \<Rightarrow>
          Returns (s\<lparr>console := console s @ [logShapeUpdate ''delete'' sel],
                     shapes := filter (\<lambda>shape. shape_id shape \<noteq> shape_id sel) (shapes s),
                     selectedShape := None,
                     transformerRef := map_option (\<lambda>ns. []) (transformerRef s)\<rparr>))"

section \<open>Rendering and event dispatch\<close>

text \<open>
  The JSX mounts the \<^verbatim>\<open>Transformer\<close> only under \<^verbatim>\<open>{selectedShape && ...}\<close>: after a
  render the ref is empty when nothing is selected, and holds a transformer (a fresh one
  has no nodes) when a shape is selected.
\<close>

definition render :: "'a app_scheme \<Rightarrow> 'a app_scheme" where
  "render s =
     s\<lparr>transformerRef :=
         (case selectedShape s of
            None \<Rightarrow> None
          | Some sel \<Rightarrow> (case transformerRef s of None \<Rightarrow> Some [] | Some ns \<Rightarrow> Some ns))\<rparr>"

text \<open>
  The callbacks the JSX binds: the three stage handlers, \<^verbatim>\<open>onClick\<close> of a drawn shape,
  \<^verbatim>\<open>onDragEnd\<close> and \<^verbatim>\<open>onTransformEnd\<close> (both \<^verbatim>\<open>handleTransformEnd\<close>), and the three
  toolbar buttons. \<open>MouseDown\<close> carries the values \<^verbatim>\<open>Date.now()\<close> and the random colour
  string take during the call.
\<close>

datatype event =
    MouseDown mouse_event nat string
  | MouseMove mouse_event
  | MouseUp
  | ShapeSelect shape
  | TransformEnd node
  | Delete
  | SetSelectedTool tool

fun map_outcome :: "('a \<Rightarrow> 'b) \<Rightarrow> 'a outcome \<Rightarrow> 'b outcome" where
  "map_outcome f (Returns s) = Returns (f s)"
| "map_outcome f (Throws e s) = Throws e (f s)"

fun dispatch_PaintApp :: "app \<Rightarrow> event \<Rightarrow> app outcome" where
  "dispatch_PaintApp s (MouseDown e now colour) = handleMouseDown_PaintApp s e now colour"
| "dispatch_PaintApp s (MouseMove e) = handleMouseMove_PaintApp s e"
| "dispatch_PaintApp s MouseUp = handleMouseUp_PaintApp s"
| "dispatch_PaintApp s (ShapeSelect shape) = handleShapeSelect_PaintApp s shape"
| "dispatch_PaintApp s (TransformEnd n) = map_outcome fst (handleTransformEnd_PaintApp s n)"
| "dispatch_PaintApp s Delete = handleDelete_PaintApp s"
| "dispatch_PaintApp s (SetSelectedTool t) = Returns (s\<lparr>selectedTool := t\<rparr>)"

fun dispatch_part000 :: "app_part000 \<Rightarrow> event \<Rightarrow> app_part000 outcome" where
  "dispatch_part000 s (MouseDown e now colour) = handleMouseDown_part000 s e now colour"
| "dispatch_part000 s (MouseMove e) = handleMouseMove_part000 s e"
| "dispatch_part000 s MouseUp = handleMouseUp_part000 s"
| "dispatch_part000 s (ShapeSelect shape) = handleShapeSelect_part000 s (Some shape)"
| "dispatch_part000 s (TransformEnd n) = map_outcome fst (handleTransformEnd_part000 s n)"
| "dispatch_part000 s Delete = handleDelete_part000 s"
| "dispatch_part000 s (SetSelectedTool t) = Returns (s\<lparr>selectedTool := t\<rparr>)"

text \<open>
  One event: the handler runs, a throw leaves the updates made so far, and the
  component renders again.
\<close>

definition next_PaintApp :: "app \<Rightarrow> event \<Rightarrow> app" where
  "next_PaintApp s ev = render (state_of (dispatch_PaintApp s ev))"

definition next_part000 :: "app_part000 \<Rightarrow> event \<Rightarrow> app_part000" where
  "next_part000 s ev = render (state_of (dispatch_part000 s ev))"

definition run_PaintApp :: "app \<Rightarrow> event list \<Rightarrow> app" where
  "run_PaintApp s evs = foldl next_PaintApp s evs"

definition run_part000 :: "app_part000 \<Rightarrow> event list \<Rightarrow> app_part000" where
  "run_part000 s evs = foldl next_part000 s evs"

section \<open>Gestures, traces and the predicates of the properties\<close>

text \<open>A mouse event on the empty canvas, with the pointer at \<open>(px, py)\<close>.\<close>

definition canvas_at :: "real \<Rightarrow> real \<Rightarrow> mouse_event" where
  "canvas_at px py = \<lparr>clickedOnEmpty = True, pointerPosition = Some (px, py)\<rparr>"

text \<open>A mouse event on the empty canvas for which the stage reports no pointer position.\<close>

definition no_pointer :: mouse_event where
  "no_pointer = \<lparr>clickedOnEmpty = True, pointerPosition = None\<rparr>"

text \<open>A draw gesture: pointer-down, the pointer-moves, pointer-up.\<close>

definition drawGesture :: "mouse_event \<Rightarrow> nat \<Rightarrow> string \<Rightarrow> mouse_event list \<Rightarrow> event list" where
  "drawGesture e0 now colour moves = MouseDown e0 now colour # map MouseMove moves @ [MouseUp]"

text \<open>
  The timestamps of the pointer-downs of a trace that appended a shape, in order.
\<close>

fun creations_PaintApp :: "app \<Rightarrow> event list \<Rightarrow> nat list" where
  "creations_PaintApp s [] = []"
| "creations_PaintApp s (ev # evs) =
     (case ev of
        MouseDown e now colour \<Rightarrow>
          (if length (shapes (next_PaintApp s ev)) = Suc (length (shapes s)) then [now] else [])
      | _ \<Rightarrow> [])
     @ creations_PaintApp (next_PaintApp s ev) evs"

fun creations_part000 :: "app_part000 \<Rightarrow> event list \<Rightarrow> nat list" where
  "creations_part000 s [] = []"
| "creations_part000 s (ev # evs) =
     (case ev of
        MouseDown e now colour \<Rightarrow>
          (if length (shapes (next_part000 s ev)) = Suc (length (shapes s)) then [now] else [])
      | _ \<Rightarrow> [])
     @ creations_part000 (next_part000 s ev) evs"

text \<open>The fields a shape's type does not use are 0.\<close>

definition unused_zero :: "shape \<Rightarrow> bool" where
  "unused_zero sh =
     ((shape_type sh = Some CIRCLE \<longrightarrow> shape_width sh = 0 \<and> shape_height sh = 0) \<and>
      (shape_type sh = Some RECTANGLE \<longrightarrow> shape_radius sh = 0))"

text \<open>
  The fields a shape's type does not use are 0, except width and height of a circle
  whose id is in \<open>T\<close>.
\<close>

definition typed_fields_zero :: "ident option set \<Rightarrow> shape \<Rightarrow> bool" where
  "typed_fields_zero T sh =
     ((shape_type sh = Some RECTANGLE \<longrightarrow> shape_radius sh = 0) \<and>
      (shape_type sh = Some CIRCLE \<and> shape_id sh \<notin> T \<longrightarrow>
         shape_width sh = 0 \<and> shape_height sh = 0))"

fun is_TransformEnd :: "event \<Rightarrow> bool" where
  "is_TransformEnd (TransformEnd n) = True"
| "is_TransformEnd ev = False"

text \<open>
  The node is one the render drew: the JSX draws a \<^verbatim>\<open>Rect\<close> (no \<^verbatim>\<open>radius\<close> method) for
  a rectangle of the list and a \<^verbatim>\<open>Circle\<close> for a circle, each under its shape's id.
\<close>

definition rendered_as :: "shape list \<Rightarrow> node \<Rightarrow> bool" where
  "rendered_as drawn n =
     (\<exists>sh \<in> set drawn. shape_id sh = node_id n \<and>
        (shape_type sh = Some RECTANGLE \<and> node_radius n = None \<or>
         shape_type sh = Some CIRCLE \<and> node_radius n \<noteq> None))"

text \<open>Every drag-end and transform-end of the trace targets a node of the last render.\<close>

fun targets_rendered_PaintApp :: "app \<Rightarrow> event list \<Rightarrow> bool" where
  "targets_rendered_PaintApp s [] = True"
| "targets_rendered_PaintApp s (ev # evs) =
     ((case ev of TransformEnd n \<Rightarrow> rendered_as (shapes s) n | _ \<Rightarrow> True) \<and>
      targets_rendered_PaintApp (next_PaintApp s ev) evs)"

fun targets_rendered_part000 :: "app_part000 \<Rightarrow> event list \<Rightarrow> bool" where
  "targets_rendered_part000 s [] = True"
| "targets_rendered_part000 s (ev # evs) =
     ((case ev of TransformEnd n \<Rightarrow> rendered_as (shapes s) n | _ \<Rightarrow> True) \<and>
      targets_rendered_part000 (next_part000 s ev) evs)"

text \<open>
  The ids of the nodes the drag-ends and transform-ends of a trace target, and those
  among them of nodes with a \<^verbatim>\<open>radius\<close> method (the \<^verbatim>\<open>Circle\<close> nodes).
\<close>

fun targets :: "event list \<Rightarrow> ident option list" where
  "targets [] = []"
| "targets (TransformEnd n # evs) = node_id n # targets evs"
| "targets (ev # evs) = targets evs"

fun circle_targets :: "event list \<Rightarrow> ident option list" where
  "circle_targets [] = []"
| "circle_targets (TransformEnd n # evs) =
     (if node_radius n \<noteq> None then [node_id n] else []) @ circle_targets evs"
| "circle_targets (ev # evs) = circle_targets evs"

text \<open>
  The traces and states the concrete instances below run on: two rectangles drawn with
  the default tool (the second one towards the left), a circle drawn after choosing the
  circle tool, and the state after a click on the first rectangle.
\<close>

definition two_rectangles :: "event list" where
  "two_rectangles =
     drawGesture (canvas_at 10 10) 5 ''#aa0000'' [canvas_at 50 80] @
     drawGesture (canvas_at 100 100) 7 ''#00bb00'' [canvas_at 90 130]"

definition one_circle :: "event list" where
  "one_circle =
     SetSelectedTool CIRCLE # drawGesture (canvas_at 0 0) 5 ''#0000cc'' [canvas_at 3 4]"

definition selected_PaintApp :: app where
  "selected_PaintApp =
     (let s = run_PaintApp initial_PaintApp two_rectangles
      in next_PaintApp s (ShapeSelect (hd (shapes s))))"

definition selected_part000 :: app_part000 where
  "selected_part000 =
     (let s = run_part000 initial_part000 two_rectangles
      in next_part000 s (ShapeSelect (hd (shapes s))))"

text \<open>The \<^verbatim>\<open>Circle\<close> node of the circle of \<open>one_circle\<close> at the end of a drag that did not move it.\<close>

definition dragged_circle :: "ident \<Rightarrow> node" where
  "dragged_circle i =
     \<lparr>node_id = Some i, node_x = 0, node_y = 0, node_width = 10, node_height = 10,
      node_radius = Some 5, node_scaleX = 1, node_scaleY = 1\<rparr>"

text \<open>
  The \<^verbatim>\<open>Rect\<close> node of the first rectangle of \<open>two_rectangles\<close> at the end of a transform
  that doubled its width.
\<close>

definition stretched_rectangle :: "ident \<Rightarrow> node" where
  "stretched_rectangle i =
     \<lparr>node_id = Some i, node_x = 10, node_y = 10, node_width = 40, node_height = 70,
      node_radius = None, node_scaleX = 2, node_scaleY = 1\<rparr>"

text \<open>
  A rectangle and a circle whose pointer-downs read the same timestamp 5, and the
  \<^verbatim>\<open>Circle\<close> node of that circle (radius 5, diameter 10) at the end of a drag.
\<close>

definition colliding_shapes :: "event list" where
  "colliding_shapes =
     drawGesture (canvas_at 10 10) 5 ''#aa0000'' [canvas_at 50 80] @
     SetSelectedTool CIRCLE # drawGesture (canvas_at 100 100) 5 ''#0000cc'' [canvas_at 103 104]"

definition dragged_colliding_circle :: "ident \<Rightarrow> node" where
  "dragged_colliding_circle i =
     \<lparr>node_id = Some i, node_x = 100, node_y = 100, node_width = 10, node_height = 10,
      node_radius = Some 5, node_scaleX = 1, node_scaleY = 1\<rparr>"

section \<open>Evaluation of the concrete traces\<close>

lemmas handlers_PaintApp =
  handleMouseDown_PaintApp_def handleMouseMove_PaintApp_def handleMouseUp_PaintApp_def
  handleShapeSelect_PaintApp_def handleTransformEnd_PaintApp_def handleDelete_PaintApp_def

lemmas handlers_part000 =
  handleMouseDown_part000_def handleMouseMove_part000_def handleMouseUp_part000_def
  handleShapeSelect_part000_def handleTransformEnd_part000_def handleDelete_part000_def

lemmas trace_defs =
  run_PaintApp_def run_part000_def next_PaintApp_def next_part000_def render_def
  initial_PaintApp_def initial_part000_def canvas_at_def no_pointer_def drawGesture_def
  logShapeUpdate_def or_zero_def Let_def

lemma decimal_5: "decimal 5 = ''5''"
  by code_simp

lemma decimal_7: "decimal 7 = ''7''"
  by code_simp

lemma sqrt_25: "sqrt 25 = 5"
  by (rule real_sqrt_unique) simp_all

lemma two_rectangles_PaintApp:
  "run_PaintApp initial_PaintApp two_rectangles =
     \<lparr>shapes =
        [\<lparr>shape_id = Some (IdNum 5), shape_type = Some RECTANGLE, shape_x = 10, shape_y = 10,
          shape_width = 40, shape_height = 70, shape_radius = 0, shape_fill = Some ''#aa0000''\<rparr>,
         \<lparr>shape_id = Some (IdNum 7), shape_type = Some RECTANGLE, shape_x = 100, shape_y = 100,
          shape_width = - 10, shape_height = 30, shape_radius = 0,
          shape_fill = Some ''#00bb00''\<rparr>],
      selectedShape = None, selectedTool = RECTANGLE, isDrawing = False,
      transformerRef = None,
      console =
        [\<lparr>log_action = ''create'', log_id = Some (IdNum 5), log_type = Some RECTANGLE,
          log_x = 10, log_y = 10, log_width = 0, log_height = 0, log_radius = 0,
          log_fill = Some ''#aa0000''\<rparr>,
         \<lparr>log_action = ''modify'', log_id = Some (IdNum 5), log_type = Some RECTANGLE,
          log_x = 10, log_y = 10, log_width = 40, log_height = 70, log_radius = 0,
          log_fill = Some ''#aa0000''\<rparr>,
         \<lparr>log_action = ''create'', log_id = Some (IdNum 7), log_type = Some RECTANGLE,
          log_x = 100, log_y = 100, log_width = 0, log_height = 0, log_radius = 0,
          log_fill = Some ''#00bb00''\<rparr>,
         \<lparr>log_action = ''modify'', log_id = Some (IdNum 7), log_type = Some RECTANGLE,
          log_x = 100, log_y = 100, log_width = - 10, log_height = 30, log_radius = 0,
          log_fill = Some ''#00bb00''\<rparr>]\<rparr>"
  by (simp add: two_rectangles_def trace_defs handlers_PaintApp)

lemma two_rectangles_part000:
  "run_part000 initial_part000 two_rectangles =
     \<lparr>shapes =
        [\<lparr>shape_id = Some (IdStr ''shape-5''), shape_type = Some RECTANGLE, shape_x = 10,
          shape_y = 10, shape_width = 40, shape_height = 70, shape_radius = 0,
          shape_fill = Some ''#aa0000''\<rparr>,
         \<lparr>shape_id = Some (IdStr ''shape-7''), shape_type = Some RECTANGLE, shape_x = 100,
          shape_y = 100, shape_width = - 10, shape_height = 30, shape_radius = 0,
          shape_fill = Some ''#00bb00''\<rparr>],
      selectedShape = None, selectedTool = RECTANGLE, isDrawing = False,
      transformerRef = None,
      console =
        [\<lparr>log_action = ''create'', log_id = Some (IdStr ''shape-5''),
          log_type = Some RECTANGLE, log_x = 10, log_y = 10, log_width = 40, log_height = 70,
          log_radius = 0, log_fill = Some ''#aa0000''\<rparr>,
         \<lparr>log_action = ''create'', log_id = Some (IdStr ''shape-7''),
          log_type = Some RECTANGLE, log_x = 100, log_y = 100, log_width = - 10,
          log_height = 30, log_radius = 0, log_fill = Some ''#00bb00''\<rparr>],
      newShape = None\<rparr>"
  by (simp add: two_rectangles_def trace_defs handlers_part000 decimal_5 decimal_7)

lemma selected_PaintApp_eq:
  "selected_PaintApp =
     (run_PaintApp initial_PaintApp two_rectangles)
       \<lparr>selectedShape := Some (hd (shapes (run_PaintApp initial_PaintApp two_rectangles))),
        transformerRef := Some []\<rparr>"
  unfolding selected_PaintApp_def two_rectangles_PaintApp
  by (simp add: trace_defs handlers_PaintApp)

lemma selected_part000_eq:
  "selected_part000 =
     (run_part000 initial_part000 two_rectangles)
       \<lparr>selectedShape := Some (hd (shapes (run_part000 initial_part000 two_rectangles))),
        transformerRef := Some []\<rparr>"
  unfolding selected_part000_def two_rectangles_part000
  by (simp add: trace_defs handlers_part000)

lemma one_circle_PaintApp:
  "run_PaintApp initial_PaintApp one_circle =
     \<lparr>shapes =
        [\<lparr>shape_id = Some (IdNum 5), shape_type = Some CIRCLE, shape_x = 0, shape_y = 0,
          shape_width = 0, shape_height = 0, shape_radius = 5, shape_fill = Some ''#0000cc''\<rparr>],
      selectedShape = None, selectedTool = CIRCLE, isDrawing = False, transformerRef = None,
      console =
        [\<lparr>log_action = ''create'', log_id = Some (IdNum 5), log_type = Some CIRCLE,
          log_x = 0, log_y = 0, log_width = 0, log_height = 0, log_radius = 0,
          log_fill = Some ''#0000cc''\<rparr>,
         \<lparr>log_action = ''modify'', log_id = Some (IdNum 5), log_type = Some CIRCLE,
          log_x = 0, log_y = 0, log_width = 0, log_height = 0, log_radius = 5,
          log_fill = Some ''#0000cc''\<rparr>]\<rparr>"
  by (simp add: one_circle_def trace_defs handlers_PaintApp sqrt_25)

lemma one_circle_part000:
  "run_part000 initial_part000 one_circle =
     \<lparr>shapes =
        [\<lparr>shape_id = Some (IdStr ''shape-5''), shape_type = Some CIRCLE, shape_x = 0,
          shape_y = 0, shape_width = 0, shape_height = 0, shape_radius = 5,
          shape_fill = Some ''#0000cc''\<rparr>],
      selectedShape = None, selectedTool = CIRCLE, isDrawing = False, transformerRef = None,
      console =
        [\<lparr>log_action = ''create'', log_id = Some (IdStr ''shape-5''), log_type = Some CIRCLE,
          log_x = 0, log_y = 0, log_width = 0, log_height = 0, log_radius = 5,
          log_fill = Some ''#0000cc''\<rparr>],
      newShape = None\<rparr>"
  by (simp add: one_circle_def trace_defs handlers_part000 sqrt_25 decimal_5)

section \<open>Deletion\<close>

text \<open>
  C3. With a shape selected, \<^verbatim>\<open>handleDelete\<close> of either file returns; the new list is the
  old one without the shapes whose id is the selected shape's id (the others stay, in
  order and unchanged), the log grows by the one \<open>delete\<close> record of the selected shape,
  and the selection is empty.
\<close>

theorem delete_removes_selected_id:
  "(selectedShape a = Some sel \<longrightarrow>
     (\<exists>a'. handleDelete_PaintApp a = Returns a' \<and>
        shapes a' = filter (\<lambda>sh. shape_id sh \<noteq> shape_id sel) (shapes a) \<and>
        console a' = console a @ [logShapeUpdate ''delete'' sel] \<and>
        selectedShape a' = None)) \<and>
   (selectedShape b = Some sel \<longrightarrow>
     (\<exists>b'. handleDelete_part000 b = Returns b' \<and>
        shapes b' = filter (\<lambda>sh. shape_id sh \<noteq> shape_id sel) (shapes b) \<and>
        console b' = console b @ [logShapeUpdate ''delete'' sel] \<and>
        selectedShape b' = None))"
  by (simp add: handleDelete_PaintApp_def handleDelete_part000_def)

theorem delete_removes_selected_id_witness:
  "map shape_id (shapes (state_of (handleDelete_PaintApp selected_PaintApp))) =
     [Some (IdNum 7)] \<and>
   map log_action (console (state_of (handleDelete_PaintApp selected_PaintApp))) =
     [''create'', ''modify'', ''create'', ''modify'', ''delete''] \<and>
   log_id (last (console (state_of (handleDelete_PaintApp selected_PaintApp)))) =
     Some (IdNum 5) \<and>
   selectedShape (state_of (handleDelete_PaintApp selected_PaintApp)) = None \<and>
   map shape_id (shapes (state_of (handleDelete_part000 selected_part000))) =
     [Some (IdStr ''shape-7'')] \<and>
   map log_action (console (state_of (handleDelete_part000 selected_part000))) =
     [''create'', ''create'', ''delete''] \<and>
   log_id (last (console (state_of (handleDelete_part000 selected_part000)))) =
     Some (IdStr ''shape-5'') \<and>
   selectedShape (state_of (handleDelete_part000 selected_part000)) = None"
proof -
  let ?a = "hd (shapes (run_PaintApp initial_PaintApp two_rectangles))"
  let ?b = "hd (shapes (run_part000 initial_part000 two_rectangles))"
  have "selectedShape selected_PaintApp = Some ?a"
    by (simp add: selected_PaintApp_eq)
  with delete_removes_selected_id [of selected_PaintApp ?a]
  obtain a' where "handleDelete_PaintApp selected_PaintApp = Returns a'"
    and "shapes a' = filter (\<lambda>sh. shape_id sh \<noteq> shape_id ?a) (shapes selected_PaintApp)"
    and "console a' = console selected_PaintApp @ [logShapeUpdate ''delete'' ?a]"
    and "selectedShape a' = None"
    by blast
  then have A: "map shape_id (shapes (state_of (handleDelete_PaintApp selected_PaintApp))) =
     [Some (IdNum 7)] \<and>
   map log_action (console (state_of (handleDelete_PaintApp selected_PaintApp))) =
     [''create'', ''modify'', ''create'', ''modify'', ''delete''] \<and>
   log_id (last (console (state_of (handleDelete_PaintApp selected_PaintApp)))) =
     Some (IdNum 5) \<and>
   selectedShape (state_of (handleDelete_PaintApp selected_PaintApp)) = None"
    by (simp add: selected_PaintApp_eq two_rectangles_PaintApp logShapeUpdate_def)
  have "selectedShape selected_part000 = Some ?b"
    by (simp add: selected_part000_eq)
  with delete_removes_selected_id [of _ ?b selected_part000]
  obtain b' where "handleDelete_part000 selected_part000 = Returns b'"
    and "shapes b' = filter (\<lambda>sh. shape_id sh \<noteq> shape_id ?b) (shapes selected_part000)"
    and "console b' = console selected_part000 @ [logShapeUpdate ''delete'' ?b]"
    and "selectedShape b' = None"
    by blast
  then have "map shape_id (shapes (state_of (handleDelete_part000 selected_part000))) =
     [Some (IdStr ''shape-7'')] \<and>
   map log_action (console (state_of (handleDelete_part000 selected_part000))) =
     [''create'', ''create'', ''delete''] \<and>
   log_id (last (console (state_of (handleDelete_part000 selected_part000)))) =
     Some (IdStr ''shape-5'') \<and>
   selectedShape (state_of (handleDelete_part000 selected_part000)) = None"
    by (simp add: selected_part000_eq two_rectangles_part000 logShapeUpdate_def)
  with A show ?thesis
    by simp
qed

section \<open>Transform-end and drag-end\<close>

text \<open>
  C8. \<^verbatim>\<open>handleTransformEnd\<close> of either file, which is also the drag-end handler, always
  returns, and the node it leaves behind is the event's node with \<open>scaleX\<close> and \<open>scaleY\<close>
  set to 1. The scale factors it read before the reset are folded into the shape \<open>sh\<close>
  found under the node's id: every entry of the list with that id becomes \<open>sh\<close> at the
  node's position, with width \<open>width * scaleX\<close>, height \<open>height * scaleY\<close> and, for a node
  with a radius, radius \<open>radius * scaleX\<close> (their absolute values in
  \<^verbatim>\<open>unnamed/part_000\<close>), and one \<open>modify\<close> record of that shape is logged.
\<close>

theorem transform_end_resets_scale:
  "(\<exists>a'. handleTransformEnd_PaintApp a n =
            Returns (a', n\<lparr>node_scaleX := 1, node_scaleY := 1\<rparr>) \<and>
      (find (\<lambda>s. shape_id s = node_id n) (shapes a) = Some sh \<longrightarrow>
         shapes a' =
           map (\<lambda>shape. if shape_id shape = shape_id sh
                  then sh\<lparr>shape_x := node_x n, shape_y := node_y n,
                          shape_width := node_width n * node_scaleX n,
                          shape_height := node_height n * node_scaleY n,
                          shape_radius :=
                            (case node_radius n of None \<Rightarrow> 0 | Some r \<Rightarrow> r * node_scaleX n)\<rparr>
                  else shape) (shapes a) \<and>
         console a' = console a @
           [logShapeUpdate ''modify''
              (sh\<lparr>shape_x := node_x n, shape_y := node_y n,
                  shape_width := node_width n * node_scaleX n,
                  shape_height := node_height n * node_scaleY n,
                  shape_radius :=
                    (case node_radius n of None \<Rightarrow> 0 | Some r \<Rightarrow> r * node_scaleX n)\<rparr>)])) \<and>
   (\<exists>b'. handleTransformEnd_part000 b n =
            Returns (b', n\<lparr>node_scaleX := 1, node_scaleY := 1\<rparr>) \<and>
      (find (\<lambda>s. shape_id s = node_id n) (shapes b) = Some sh \<longrightarrow>
         shapes b' =
           map (\<lambda>shape. if shape_id shape = shape_id sh
                  then sh\<lparr>shape_x := node_x n, shape_y := node_y n,
                          shape_width := \<bar>node_width n * node_scaleX n\<bar>,
                          shape_height := \<bar>node_height n * node_scaleY n\<bar>,
                          shape_radius :=
                            (case node_radius n of None \<Rightarrow> 0 | Some r \<Rightarrow> \<bar>r * node_scaleX n\<bar>)\<rparr>
                  else shape) (shapes b) \<and>
         console b' = console b @
           [logShapeUpdate ''modify''
              (sh\<lparr>shape_x := node_x n, shape_y := node_y n,
                  shape_width := \<bar>node_width n * node_scaleX n\<bar>,
                  shape_height := \<bar>node_height n * node_scaleY n\<bar>,
                  shape_radius :=
                    (case node_radius n of None \<Rightarrow> 0 | Some r \<Rightarrow> \<bar>r * node_scaleX n\<bar>)\<rparr>)]))"
  by (simp add: handleTransformEnd_PaintApp_def handleTransformEnd_part000_def Let_def
      spread_def)

text \<open>
  An instance in both files: the first of the two rectangles, 40 wide, is stretched to
  twice its width. The node comes back with scale 1, the rectangle is stored 80 wide
  and logged so; the second rectangle is untouched.
\<close>

theorem transform_end_resets_scale_witness:
  "map_outcome snd (handleTransformEnd_PaintApp
      (run_PaintApp initial_PaintApp two_rectangles) (stretched_rectangle (IdNum 5))) =
     Returns ((stretched_rectangle (IdNum 5))\<lparr>node_scaleX := 1, node_scaleY := 1\<rparr>) \<and>
   map shape_width (shapes (fst (state_of (handleTransformEnd_PaintApp
      (run_PaintApp initial_PaintApp two_rectangles) (stretched_rectangle (IdNum 5)))))) =
     [80, - 10] \<and>
   log_width (last (console (fst (state_of (handleTransformEnd_PaintApp
      (run_PaintApp initial_PaintApp two_rectangles) (stretched_rectangle (IdNum 5))))))) =
     80 \<and>
   map_outcome snd (handleTransformEnd_part000
      (run_part000 initial_part000 two_rectangles) (stretched_rectangle (IdStr ''shape-5''))) =
     Returns ((stretched_rectangle (IdStr ''shape-5''))\<lparr>node_scaleX := 1, node_scaleY := 1\<rparr>) \<and>
   map shape_width (shapes (fst (state_of (handleTransformEnd_part000
      (run_part000 initial_part000 two_rectangles)
      (stretched_rectangle (IdStr ''shape-5'')))))) =
     [80, - 10] \<and>
   log_width (last (console (fst (state_of (handleTransformEnd_part000
      (run_part000 initial_part000 two_rectangles)
      (stretched_rectangle (IdStr ''shape-5''))))))) =
     80"
proof -
  let ?a = "run_PaintApp initial_PaintApp two_rectangles"
  let ?b = "run_part000 initial_part000 two_rectangles"
  let ?na = "stretched_rectangle (IdNum 5)"
  let ?nb = "stretched_rectangle (IdStr ''shape-5'')"
  have fa: "find (\<lambda>s. shape_id s = node_id ?na) (shapes ?a) = Some (hd (shapes ?a))"
    by (simp add: two_rectangles_PaintApp stretched_rectangle_def)
  have fb: "find (\<lambda>s. shape_id s = node_id ?nb) (shapes ?b) = Some (hd (shapes ?b))"
    by (simp add: two_rectangles_part000 stretched_rectangle_def)
  from transform_end_resets_scale [of ?a ?na "hd (shapes ?a)"] fa
  obtain a' where a: "handleTransformEnd_PaintApp ?a ?na =
      Returns (a', ?na\<lparr>node_scaleX := 1, node_scaleY := 1\<rparr>)"
    "shapes a' =
       map (\<lambda>shape. if shape_id shape = shape_id (hd (shapes ?a))
              then (hd (shapes ?a))\<lparr>shape_x := node_x ?na, shape_y := node_y ?na,
                      shape_width := node_width ?na * node_scaleX ?na,
                      shape_height := node_height ?na * node_scaleY ?na,
                      shape_radius :=
                        (case node_radius ?na of None \<Rightarrow> 0 | Some r \<Rightarrow> r * node_scaleX ?na)\<rparr>
              else shape) (shapes ?a)"
    "console a' = console ?a @
       [logShapeUpdate ''modify''
          ((hd (shapes ?a))\<lparr>shape_x := node_x ?na, shape_y := node_y ?na,
              shape_width := node_width ?na * node_scaleX ?na,
              shape_height := node_height ?na * node_scaleY ?na,
              shape_radius :=
                (case node_radius ?na of None \<Rightarrow> 0 | Some r \<Rightarrow> r * node_scaleX ?na)\<rparr>)]"
    by blast
  have A: "map_outcome snd (handleTransformEnd_PaintApp ?a ?na) =
      Returns (?na\<lparr>node_scaleX := 1, node_scaleY := 1\<rparr>) \<and>
    map shape_width (shapes (fst (state_of (handleTransformEnd_PaintApp ?a ?na)))) =
      [80, - 10] \<and>
    log_width (last (console (fst (state_of (handleTransformEnd_PaintApp ?a ?na))))) = 80"
    unfolding a(1) by (simp add: a(2,3) two_rectangles_PaintApp stretched_rectangle_def logShapeUpdate_def
        or_zero_def)
  from transform_end_resets_scale [of _ ?nb "hd (shapes ?b)" ?b] fb
  obtain b' where b: "handleTransformEnd_part000 ?b ?nb =
      Returns (b', ?nb\<lparr>node_scaleX := 1, node_scaleY := 1\<rparr>)"
    "shapes b' =
       map (\<lambda>shape. if shape_id shape = shape_id (hd (shapes ?b))
              then (hd (shapes ?b))\<lparr>shape_x := node_x ?nb, shape_y := node_y ?nb,
                      shape_width := \<bar>node_width ?nb * node_scaleX ?nb\<bar>,
                      shape_height := \<bar>node_height ?nb * node_scaleY ?nb\<bar>,
                      shape_radius :=
                        (case node_radius ?nb of None \<Rightarrow> 0 | Some r \<Rightarrow> \<bar>r * node_scaleX ?nb\<bar>)\<rparr>
              else shape) (shapes ?b)"
    "console b' = console ?b @
       [logShapeUpdate ''modify''
          ((hd (shapes ?b))\<lparr>shape_x := node_x ?nb, shape_y := node_y ?nb,
              shape_width := \<bar>node_width ?nb * node_scaleX ?nb\<bar>,
              shape_height := \<bar>node_height ?nb * node_scaleY ?nb\<bar>,
              shape_radius :=
                (case node_radius ?nb of None \<Rightarrow> 0 | Some r \<Rightarrow> \<bar>r * node_scaleX ?nb\<bar>)\<rparr>)]"
    by blast
  have B: "map_outcome snd (handleTransformEnd_part000 ?b ?nb) =
      Returns (?nb\<lparr>node_scaleX := 1, node_scaleY := 1\<rparr>) \<and>
    map shape_width (shapes (fst (state_of (handleTransformEnd_part000 ?b ?nb)))) =
      [80, - 10] \<and>
    log_width (last (console (fst (state_of (handleTransformEnd_part000 ?b ?nb))))) = 80"
    unfolding b(1) by (simp add: b(2,3) two_rectangles_part000 stretched_rectangle_def logShapeUpdate_def
        or_zero_def)
  from A B show ?thesis
    by simp
qed

section \<open>Pointer-move while drawing\<close>

text \<open>
  C2. While drawing, a pointer-move at \<open>(px, py)\<close> replaces the in-progress shape \<open>sh\<close>
  (the last shape of the list in \<^verbatim>\<open>src/components/PaintApp.js\<close>, \<open>newShape\<close> in
  \<^verbatim>\<open>unnamed/part_000\<close>) by \<open>sh\<close> with width \<open>px - x\<close> and height \<open>py - y\<close> when it is a
  rectangle, and by \<open>sh\<close> with radius \<open>sqrt ((px - x)\<^sup>2 + (py - y)\<^sup>2)\<close> when it is a circle,
  \<open>(x, y)\<close> being the anchor stored in \<open>sh\<close>.
\<close>

theorem pointer_move_recomputes_extent:
  "(isDrawing a \<and> shapes a \<noteq> [] \<and> last (shapes a) = sh \<and> pointerPosition e = Some (px, py) \<longrightarrow>
      (shape_type sh = Some RECTANGLE \<longrightarrow>
         handleMouseMove_PaintApp a e =
           Returns (a\<lparr>shapes := butlast (shapes a) @
              [sh\<lparr>shape_width := px - shape_x sh, shape_height := py - shape_y sh\<rparr>]\<rparr>)) \<and>
      (shape_type sh = Some CIRCLE \<longrightarrow>
         handleMouseMove_PaintApp a e =
           Returns (a\<lparr>shapes := butlast (shapes a) @
              [sh\<lparr>shape_radius := sqrt ((px - shape_x sh)\<^sup>2 + (py - shape_y sh)\<^sup>2)\<rparr>]\<rparr>))) \<and>
   (isDrawing b \<and> newShape b = Some sh \<and> pointerPosition e = Some (px, py) \<longrightarrow>
      (shape_type sh = Some RECTANGLE \<longrightarrow>
         handleMouseMove_part000 b e =
           Returns (b\<lparr>shapes :=
                        map (\<lambda>shape. if shape_id shape = shape_id sh
                               then sh\<lparr>shape_width := px - shape_x sh,
                                       shape_height := py - shape_y sh\<rparr>
                               else shape) (shapes b),
                      newShape := Some (sh\<lparr>shape_width := px - shape_x sh,
                                             shape_height := py - shape_y sh\<rparr>)\<rparr>)) \<and>
      (shape_type sh = Some CIRCLE \<longrightarrow>
         handleMouseMove_part000 b e =
           Returns (b\<lparr>shapes :=
                        map (\<lambda>shape. if shape_id shape = shape_id sh
                               then sh\<lparr>shape_radius :=
                                         sqrt ((px - shape_x sh)\<^sup>2 + (py - shape_y sh)\<^sup>2)\<rparr>
                               else shape) (shapes b),
                      newShape := Some (sh\<lparr>shape_radius :=
                                         sqrt ((px - shape_x sh)\<^sup>2 + (py - shape_y sh)\<^sup>2)\<rparr>)\<rparr>)))"
  by (simp add: handleMouseMove_PaintApp_def handleMouseMove_part000_def Let_def
      power2_eq_square)

text \<open>
  The two instances of the claim, in both files: a rectangle drawn from \<open>(10, 10)\<close> to
  \<open>(50, 80)\<close> has width 40 and height 70, a circle drawn from \<open>(0, 0)\<close> to \<open>(3, 4)\<close> has
  radius 5.
\<close>

theorem pointer_move_recomputes_extent_witness:
  "map (\<lambda>sh. (shape_width sh, shape_height sh))
     (shapes (state_of (handleMouseMove_PaintApp
        (next_PaintApp initial_PaintApp (MouseDown (canvas_at 10 10) 5 ''#aa0000''))
        (canvas_at 50 80)))) = [(40, 70)] \<and>
   map shape_radius
     (shapes (state_of (handleMouseMove_PaintApp
        (run_PaintApp initial_PaintApp
           [SetSelectedTool CIRCLE, MouseDown (canvas_at 0 0) 5 ''#0000cc''])
        (canvas_at 3 4)))) = [5] \<and>
   map (\<lambda>sh. (shape_width sh, shape_height sh))
     (shapes (state_of (handleMouseMove_part000
        (next_part000 initial_part000 (MouseDown (canvas_at 10 10) 5 ''#aa0000''))
        (canvas_at 50 80)))) = [(40, 70)] \<and>
   map shape_radius
     (shapes (state_of (handleMouseMove_part000
        (run_part000 initial_part000
           [SetSelectedTool CIRCLE, MouseDown (canvas_at 0 0) 5 ''#0000cc''])
        (canvas_at 3 4)))) = [5]"
proof -
  let ?r = "\<lparr>shape_id = Some (IdNum 5), shape_type = Some RECTANGLE, shape_x = 10,
    shape_y = 10, shape_width = 0, shape_height = 0, shape_radius = 0,
    shape_fill = Some ''#aa0000''\<rparr>"
  let ?c = "\<lparr>shape_id = Some (IdNum 5), shape_type = Some CIRCLE, shape_x = 0,
    shape_y = 0, shape_width = 0, shape_height = 0, shape_radius = 0,
    shape_fill = Some ''#0000cc''\<rparr>"
  let ?r' = "?r\<lparr>shape_id := Some (IdStr ''shape-5'')\<rparr>"
  let ?c' = "?c\<lparr>shape_id := Some (IdStr ''shape-5'')\<rparr>"
  let ?a1 = "next_PaintApp initial_PaintApp (MouseDown (canvas_at 10 10) 5 ''#aa0000'')"
  let ?a2 = "run_PaintApp initial_PaintApp
    [SetSelectedTool CIRCLE, MouseDown (canvas_at 0 0) 5 ''#0000cc'']"
  let ?b1 = "next_part000 initial_part000 (MouseDown (canvas_at 10 10) 5 ''#aa0000'')"
  let ?b2 = "run_part000 initial_part000
    [SetSelectedTool CIRCLE, MouseDown (canvas_at 0 0) 5 ''#0000cc'']"
  have a1: "isDrawing ?a1 \<and> shapes ?a1 = [?r]"
    by (simp add: trace_defs handlers_PaintApp)
  have a2: "isDrawing ?a2 \<and> shapes ?a2 = [?c]"
    by (simp add: trace_defs handlers_PaintApp)
  have b1: "isDrawing ?b1 \<and> shapes ?b1 = [?r'] \<and> newShape ?b1 = Some ?r'"
    by (simp add: trace_defs handlers_part000 decimal_5)
  have b2: "isDrawing ?b2 \<and> shapes ?b2 = [?c'] \<and> newShape ?b2 = Some ?c'"
    by (simp add: trace_defs handlers_part000 decimal_5)
  have "shapes (state_of (handleMouseMove_PaintApp ?a1 (canvas_at 50 80))) =
      [?r\<lparr>shape_width := 40, shape_height := 70\<rparr>]"
    using pointer_move_recomputes_extent [of ?a1 ?r "canvas_at 50 80" 50 80] a1
    by (simp add: canvas_at_def)
  moreover have "shapes (state_of (handleMouseMove_PaintApp ?a2 (canvas_at 3 4))) =
      [?c\<lparr>shape_radius := 5\<rparr>]"
    using pointer_move_recomputes_extent [of ?a2 ?c "canvas_at 3 4" 3 4] a2
    by (simp add: canvas_at_def sqrt_25)
  moreover have "shapes (state_of (handleMouseMove_part000 ?b1 (canvas_at 50 80))) =
      [?r'\<lparr>shape_width := 40, shape_height := 70\<rparr>]"
    using pointer_move_recomputes_extent [of _ ?r' "canvas_at 50 80" 50 80 ?b1] b1
    by (simp add: canvas_at_def)
  moreover have "shapes (state_of (handleMouseMove_part000 ?b2 (canvas_at 3 4))) =
      [?c'\<lparr>shape_radius := 5\<rparr>]"
    using pointer_move_recomputes_extent [of _ ?c' "canvas_at 3 4" 3 4 ?b2] b2
    by (simp add: canvas_at_def sqrt_25)
  ultimately show ?thesis
    by simp
qed


section \<open>Pointer-down with a selection\<close>

text \<open>
  In \<^verbatim>\<open>unnamed/part_000\<close> a pointer-down on the empty canvas clears the selection and
  empties the node set of the mounted transformer; the render that follows unmounts it.
\<close>

lemma empty_click_deselects_part000:
  "clickedOnEmpty e \<and> selectedShape b \<noteq> None \<longrightarrow>
     (\<exists>b'. handleMouseDown_part000 b e now colour = Returns b' \<and>
        selectedShape b' = None \<and>
        transformerRef b' = map_option (\<lambda>ns. []) (transformerRef b) \<and>
        transformerRef (render b') = None)"
  by (simp add: handleMouseDown_part000_def render_def)

text \<open>
  C5, on the code of \<^verbatim>\<open>src/components/PaintApp.js\<close>: with the first rectangle selected,
  a pointer-down on the empty canvas at \<open>(300, 300)\<close> changes nothing; the rectangle
  stays selected.
\<close>

theorem empty_click_keeps_selection_PaintApp:
  "selectedShape selected_PaintApp =
     Some \<lparr>shape_id = Some (IdNum 5), shape_type = Some RECTANGLE, shape_x = 10, shape_y = 10,
           shape_width = 40, shape_height = 70, shape_radius = 0,
           shape_fill = Some ''#aa0000''\<rparr> \<and>
   handleMouseDown_PaintApp selected_PaintApp (canvas_at 300 300) 9 ''#0000cc'' =
     Returns selected_PaintApp \<and>
   next_PaintApp selected_PaintApp (MouseDown (canvas_at 300 300) 9 ''#0000cc'') =
     selected_PaintApp"
  by (simp add: selected_PaintApp_eq two_rectangles_PaintApp handleMouseDown_PaintApp_def
      next_PaintApp_def render_def)

text \<open>
  C6 as stated fails in \<^verbatim>\<open>unnamed/part_000\<close>: with the first rectangle selected, a
  pointer-down on the empty canvas at \<open>(300, 300)\<close> empties the selection.
\<close>

theorem pointer_down_noop_counterexample:
  "selectedShape selected_part000 =
     Some \<lparr>shape_id = Some (IdStr ''shape-5''), shape_type = Some RECTANGLE, shape_x = 10,
           shape_y = 10, shape_width = 40, shape_height = 70, shape_radius = 0,
           shape_fill = Some ''#aa0000''\<rparr> \<and>
   selectedShape
     (state_of (handleMouseDown_part000 selected_part000 (canvas_at 300 300) 9 ''#0000cc'')) =
     None"
  by (simp add: selected_part000_eq two_rectangles_part000 handleMouseDown_part000_def
      canvas_at_def)

text \<open>
  C6, amended. With a shape selected, a pointer-down of either file returns and leaves
  the shape list, the drawing flag, the active tool and the log as they were (in
  \<^verbatim>\<open>unnamed/part_000\<close> the in-progress shape too): no shape is created, nothing is
  logged. The selection is unchanged when the pointer-down is not on the empty canvas;
  on the empty canvas \<^verbatim>\<open>unnamed/part_000\<close> clears it.
\<close>

theorem pointer_down_while_selected:
  "(selectedShape a \<noteq> None \<longrightarrow>
      (\<exists>a'. handleMouseDown_PaintApp a e now colour = Returns a' \<and>
         shapes a' = shapes a \<and> isDrawing a' = isDrawing a \<and>
         selectedTool a' = selectedTool a \<and> console a' = console a \<and>
         (\<not> clickedOnEmpty e \<longrightarrow> selectedShape a' = selectedShape a))) \<and>
   (selectedShape b \<noteq> None \<longrightarrow>
      (\<exists>b'. handleMouseDown_part000 b e now colour = Returns b' \<and>
         shapes b' = shapes b \<and> isDrawing b' = isDrawing b \<and>
         selectedTool b' = selectedTool b \<and> console b' = console b \<and>
         newShape b' = newShape b \<and>
         selectedShape b' = (if clickedOnEmpty e then None else selectedShape b)))"
  by (simp add: handleMouseDown_PaintApp_def handleMouseDown_part000_def)

theorem pointer_down_while_selected_witness:
  "selectedShape selected_PaintApp \<noteq> None \<and>
   shapes (state_of
     (handleMouseDown_PaintApp selected_PaintApp (canvas_at 300 300) 9 ''#0000cc'')) =
     shapes selected_PaintApp \<and>
   selectedShape selected_part000 \<noteq> None \<and>
   length (shapes (state_of
     (handleMouseDown_part000 selected_part000 (canvas_at 300 300) 9 ''#0000cc''))) = 2 \<and>
   length (console (state_of
     (handleMouseDown_part000 selected_part000 (canvas_at 300 300) 9 ''#0000cc''))) = 2 \<and>
   \<not> isDrawing (state_of
     (handleMouseDown_part000 selected_part000 (canvas_at 300 300) 9 ''#0000cc''))"
proof -
  have a: "selectedShape selected_PaintApp \<noteq> None"
    by (simp add: selected_PaintApp_eq)
  have b: "selectedShape selected_part000 \<noteq> None"
    by (simp add: selected_part000_eq)
  from a b
    pointer_down_while_selected
      [of selected_PaintApp "canvas_at 300 300" 9 "''#0000cc''" selected_part000]
  obtain a' b' where
    "handleMouseDown_PaintApp selected_PaintApp (canvas_at 300 300) 9 ''#0000cc'' = Returns a'"
    "shapes a' = shapes selected_PaintApp"
    "handleMouseDown_part000 selected_part000 (canvas_at 300 300) 9 ''#0000cc'' = Returns b'"
    "shapes b' = shapes selected_part000" "console b' = console selected_part000"
    "isDrawing b' = isDrawing selected_part000"
    by blast
  with a b show ?thesis
    by (simp add: selected_part000_eq two_rectangles_part000)
qed

section \<open>Absent selection, absent pointer position\<close>

text \<open>
  C9 as stated fails in both files: on the initial state, a pointer-down for which the
  stage reports no pointer position throws a \<^verbatim>\<open>TypeError\<close> (the handlers read \<^verbatim>\<open>pos.x\<close>
  with no check), and so does a pointer-move during a draw gesture.
\<close>

theorem absent_pointer_counterexample:
  "handleMouseDown_PaintApp initial_PaintApp no_pointer 5 ''#aa0000'' =
     Throws TypeError initial_PaintApp \<and>
   handleMouseDown_part000 initial_part000 no_pointer 5 ''#aa0000'' =
     Throws TypeError initial_part000 \<and>
   \<not> returns (handleMouseMove_PaintApp
        (next_PaintApp initial_PaintApp (MouseDown (canvas_at 10 10) 5 ''#aa0000'')) no_pointer) \<and>
   \<not> returns (handleMouseMove_part000
        (next_part000 initial_part000 (MouseDown (canvas_at 10 10) 5 ''#aa0000'')) no_pointer)"
  by (simp add: trace_defs handlers_PaintApp handlers_part000)

text \<open>
  C9, amended. With nothing selected, \<^verbatim>\<open>handleDelete\<close> returns the state unchanged. With
  the pointer position absent, pointer-down and pointer-move leave the shape list, the
  log, the drawing flag, the tool and the in-progress shape unchanged, but they return
  only when a guard stops them before the position is read: pointer-down when a shape is
  selected (in \<^verbatim>\<open>unnamed/part_000\<close> also when the target is not the empty canvas),
  pointer-move when nothing is being drawn or the in-progress shape has no type;
  otherwise they throw a \<^verbatim>\<open>TypeError\<close>.
\<close>

theorem absent_selection_or_pointer:
  "(selectedShape a = None \<longrightarrow> handleDelete_PaintApp a = Returns a) \<and>
   (selectedShape b = None \<longrightarrow> handleDelete_part000 b = Returns b) \<and>
   (pointerPosition e = None \<longrightarrow>
      handleMouseDown_PaintApp a e now colour =
        (if selectedShape a \<noteq> None then Returns a else Throws TypeError a) \<and>
      handleMouseMove_PaintApp a e =
        (if isDrawing a \<and> (shapes a = [] \<or> shape_type (last (shapes a)) \<noteq> None)
         then Throws TypeError a else Returns a) \<and>
      (returns (handleMouseDown_part000 b e now colour) \<longleftrightarrow>
         selectedShape b \<noteq> None \<or> \<not> clickedOnEmpty e) \<and>
      shapes (state_of (handleMouseDown_part000 b e now colour)) = shapes b \<and>
      console (state_of (handleMouseDown_part000 b e now colour)) = console b \<and>
      isDrawing (state_of (handleMouseDown_part000 b e now colour)) = isDrawing b \<and>
      selectedTool (state_of (handleMouseDown_part000 b e now colour)) = selectedTool b \<and>
      newShape (state_of (handleMouseDown_part000 b e now colour)) = newShape b \<and>
      handleMouseMove_part000 b e =
        (if isDrawing b \<and> (\<exists>ns. newShape b = Some ns \<and> shape_type ns \<noteq> None)
         then Throws TypeError b else Returns b))"
proof -
  have tool: "t = None \<or> t = Some RECTANGLE \<or> t = Some CIRCLE" for t :: "tool option"
    by (cases t) (auto intro: tool.exhaust)
  have "selectedShape a = None \<longrightarrow> handleDelete_PaintApp a = Returns a"
    by (simp add: handleDelete_PaintApp_def)
  moreover have "selectedShape b = None \<longrightarrow> handleDelete_part000 b = Returns b"
    by (simp add: handleDelete_part000_def)
  moreover have "handleMouseDown_PaintApp a e now colour =
      (if selectedShape a \<noteq> None then Returns a else Throws TypeError a)"
    if "pointerPosition e = None"
    using that by (simp add: handleMouseDown_PaintApp_def)
  moreover have "handleMouseMove_PaintApp a e =
      (if isDrawing a \<and> (shapes a = [] \<or> shape_type (last (shapes a)) \<noteq> None)
       then Throws TypeError a else Returns a)"
    if "pointerPosition e = None"
    using that tool [of "shape_type (last (shapes a))"]
    by (auto simp add: handleMouseMove_PaintApp_def Let_def)
  moreover have "(returns (handleMouseDown_part000 b e now colour) \<longleftrightarrow>
         selectedShape b \<noteq> None \<or> \<not> clickedOnEmpty e) \<and>
      shapes (state_of (handleMouseDown_part000 b e now colour)) = shapes b \<and>
      console (state_of (handleMouseDown_part000 b e now colour)) = console b \<and>
      isDrawing (state_of (handleMouseDown_part000 b e now colour)) = isDrawing b \<and>
      selectedTool (state_of (handleMouseDown_part000 b e now colour)) = selectedTool b \<and>
      newShape (state_of (handleMouseDown_part000 b e now colour)) = newShape b"
    if "pointerPosition e = None"
    using that by (simp add: handleMouseDown_part000_def Let_def)
  moreover have "handleMouseMove_part000 b e =
      (if isDrawing b \<and> (\<exists>ns. newShape b = Some ns \<and> shape_type ns \<noteq> None)
       then Throws TypeError b else Returns b)"
    if "pointerPosition e = None"
  proof (cases "newShape b")
    case None
    then show ?thesis
      by (simp add: handleMouseMove_part000_def)
  next
    case (Some ns)
    with that tool [of "shape_type ns"] show ?thesis
      by (auto simp add: handleMouseMove_part000_def)
  qed
  ultimately show ?thesis
    by blast
qed

theorem absent_selection_or_pointer_witness:
  "handleDelete_PaintApp initial_PaintApp = Returns initial_PaintApp \<and>
   handleDelete_part000 initial_part000 = Returns initial_part000 \<and>
   handleMouseDown_PaintApp selected_PaintApp no_pointer 9 ''#0000cc'' =
     Returns selected_PaintApp \<and>
   handleMouseMove_part000 initial_part000 no_pointer = Returns initial_part000 \<and>
   shapes (state_of (handleMouseDown_part000 initial_part000 no_pointer 9 ''#0000cc'')) = []"
proof -
  have "selectedShape initial_PaintApp = None" "selectedShape initial_part000 = None"
    "pointerPosition no_pointer = None" "selectedShape selected_PaintApp \<noteq> None"
    "\<not> isDrawing initial_part000" "shapes initial_part000 = []"
    by (simp_all add: initial_PaintApp_def initial_part000_def no_pointer_def
        selected_PaintApp_eq)
  then show ?thesis
    using absent_selection_or_pointer [of initial_PaintApp initial_part000 no_pointer]
      absent_selection_or_pointer
        [of selected_PaintApp initial_part000 no_pointer 9 "''#0000cc''"]
    by simp
qed


section \<open>The draw gesture\<close>

lemma round_or_zero: "round (or_zero v) = round v"
  by (simp add: or_zero_def)

lemma logShapeUpdate_rounds:
  "log_action (logShapeUpdate action sh) = action \<and>
   log_id (logShapeUpdate action sh) = shape_id sh \<and>
   log_x (logShapeUpdate action sh) = round (shape_x sh) \<and>
   log_y (logShapeUpdate action sh) = round (shape_y sh) \<and>
   log_width (logShapeUpdate action sh) = round (shape_width sh) \<and>
   log_height (logShapeUpdate action sh) = round (shape_height sh) \<and>
   log_radius (logShapeUpdate action sh) = round (shape_radius sh)"
  by (simp add: logShapeUpdate_def round_or_zero)

lemma round_negative: "v < 0 \<Longrightarrow> round v \<le> 0"
  using round_mono [of v 0] by simp

subsection \<open>unnamed/part_000\<close>

lemma down_part000:
  assumes "selectedShape s = None" "clickedOnEmpty e" "pointerPosition e = Some (ax, ay)"
  shows "\<exists>sh. isDrawing (next_part000 s (MouseDown e now colour)) \<and>
    newShape (next_part000 s (MouseDown e now colour)) = Some sh \<and>
    shapes (next_part000 s (MouseDown e now colour)) = shapes s @ [sh] \<and>
    console (next_part000 s (MouseDown e now colour)) = console s \<and>
    shape_id sh = Some (IdStr (''shape-'' @ decimal now)) \<and>
    shape_type sh = Some (selectedTool s) \<and> shape_x sh = ax \<and> shape_y sh = ay \<and>
    shape_width sh = 0 \<and> shape_height sh = 0 \<and> shape_radius sh = 0"
  using assms
  by (simp add: next_part000_def render_def handleMouseDown_part000_def Let_def)

lemma move_part000:
  assumes "isDrawing s" "newShape s = Some sh" "shapes s \<noteq> []" "last (shapes s) = sh"
    and "pointerPosition e = Some (px, py)"
  shows "\<exists>sh'. isDrawing (next_part000 s (MouseMove e)) \<and>
    newShape (next_part000 s (MouseMove e)) = Some sh' \<and>
    shapes (next_part000 s (MouseMove e)) \<noteq> [] \<and>
    last (shapes (next_part000 s (MouseMove e))) = sh' \<and>
    length (shapes (next_part000 s (MouseMove e))) = length (shapes s) \<and>
    console (next_part000 s (MouseMove e)) = console s \<and>
    shape_id sh' = shape_id sh \<and> shape_type sh' = shape_type sh \<and>
    shape_x sh' = shape_x sh \<and> shape_y sh' = shape_y sh \<and>
    (shape_type sh = Some RECTANGLE \<longrightarrow>
       shape_width sh' = px - shape_x sh \<and> shape_height sh' = py - shape_y sh)"
  using assms
  by (simp add: next_part000_def render_def handleMouseMove_part000_def Let_def last_map)

lemma moves_part000:
  assumes "isDrawing s" "newShape s = Some sh" "shapes s \<noteq> []" "last (shapes s) = sh"
    and "\<forall>e \<in> set es. pointerPosition e \<noteq> None"
  shows "\<exists>sh'. isDrawing (run_part000 s (map MouseMove es)) \<and>
    newShape (run_part000 s (map MouseMove es)) = Some sh' \<and>
    shapes (run_part000 s (map MouseMove es)) \<noteq> [] \<and>
    last (shapes (run_part000 s (map MouseMove es))) = sh' \<and>
    length (shapes (run_part000 s (map MouseMove es))) = length (shapes s) \<and>
    console (run_part000 s (map MouseMove es)) = console s \<and>
    shape_id sh' = shape_id sh \<and> shape_type sh' = shape_type sh \<and>
    shape_x sh' = shape_x sh \<and> shape_y sh' = shape_y sh"
  using assms
proof (induction es arbitrary: s sh)
  case Nil
  then show ?case
    by (simp add: run_part000_def)
next
  case (Cons e es)
  from Cons.prems(5) obtain px py where "pointerPosition e = Some (px, py)"
    by fastforce
  from move_part000 [OF Cons.prems(1-4) this]
  obtain sh1 where 1: "isDrawing (next_part000 s (MouseMove e))"
    "newShape (next_part000 s (MouseMove e)) = Some sh1"
    "shapes (next_part000 s (MouseMove e)) \<noteq> []"
    "last (shapes (next_part000 s (MouseMove e))) = sh1"
    and 2: "length (shapes (next_part000 s (MouseMove e))) = length (shapes s)"
    "console (next_part000 s (MouseMove e)) = console s"
    "shape_id sh1 = shape_id sh" "shape_type sh1 = shape_type sh"
    "shape_x sh1 = shape_x sh" "shape_y sh1 = shape_y sh"
    by blast
  from Cons.prems(5) have "\<forall>e \<in> set es. pointerPosition e \<noteq> None"
    by simp
  from Cons.IH [OF 1 this] 2 show ?case
    by (simp add: run_part000_def)
qed

lemma up_part000:
  assumes "isDrawing s" "newShape s = Some sh"
  shows "console (next_part000 s MouseUp) = console s @ [logShapeUpdate ''create'' sh] \<and>
    shapes (next_part000 s MouseUp) = shapes s \<and> \<not> isDrawing (next_part000 s MouseUp) \<and>
    newShape (next_part000 s MouseUp) = None"
  using assms
  by (simp add: next_part000_def render_def handleMouseUp_part000_def)

lemma run_part000_append:
  "run_part000 s (xs @ ys) = run_part000 (run_part000 s xs) ys"
  by (simp add: run_part000_def)

lemma run_part000_Cons:
  "run_part000 s (ev # evs) = run_part000 (next_part000 s ev) evs"
  by (simp add: run_part000_def)

lemma run_part000_Nil:
  "run_part000 s [] = s"
  by (simp add: run_part000_def)

text \<open>
  In \<^verbatim>\<open>unnamed/part_000\<close> a completed draw gesture that starts with nothing selected
  logs nothing before the pointer-up; the pointer-up appends the one record of the
  gesture, tagged \<open>create\<close>, whose id is the new shape's and whose numeric fields are
  the rounded fields of the shape as it then stands at the end of the list.
\<close>

lemma draw_gesture_logs_create_part000:
  assumes "selectedShape s = None" "clickedOnEmpty e0" "pointerPosition e0 \<noteq> None"
    and "\<forall>e \<in> set es. pointerPosition e \<noteq> None"
  shows "console (run_part000 s (MouseDown e0 now colour # map MouseMove es)) = console s \<and>
    (\<exists>sh. shapes (run_part000 s (drawGesture e0 now colour es)) \<noteq> [] \<and>
       last (shapes (run_part000 s (drawGesture e0 now colour es))) = sh \<and>
       length (shapes (run_part000 s (drawGesture e0 now colour es))) =
         Suc (length (shapes s)) \<and>
       shape_id sh = Some (IdStr (''shape-'' @ decimal now)) \<and>
       console (run_part000 s (drawGesture e0 now colour es)) =
         console s @ [logShapeUpdate ''create'' sh] \<and>
       log_x (logShapeUpdate ''create'' sh) = round (shape_x sh) \<and>
       log_y (logShapeUpdate ''create'' sh) = round (shape_y sh) \<and>
       log_width (logShapeUpdate ''create'' sh) = round (shape_width sh) \<and>
       log_height (logShapeUpdate ''create'' sh) = round (shape_height sh) \<and>
       log_radius (logShapeUpdate ''create'' sh) = round (shape_radius sh))"
proof -
  let ?s1 = "next_part000 s (MouseDown e0 now colour)"
  let ?s2 = "run_part000 ?s1 (map MouseMove es)"
  from assms(3) obtain ax ay where "pointerPosition e0 = Some (ax, ay)"
    by fastforce
  from down_part000 [OF assms(1,2) this, of now colour]
  obtain sh0 where d: "isDrawing ?s1" "newShape ?s1 = Some sh0" "shapes ?s1 = shapes s @ [sh0]"
    "console ?s1 = console s" "shape_id sh0 = Some (IdStr (''shape-'' @ decimal now))"
    by blast
  then have "shapes ?s1 \<noteq> []" "last (shapes ?s1) = sh0"
    by simp_all
  from moves_part000 [OF d(1,2) this assms(4)]
  obtain sh where m: "isDrawing ?s2" "newShape ?s2 = Some sh" "shapes ?s2 \<noteq> []"
    "last (shapes ?s2) = sh" "length (shapes ?s2) = length (shapes ?s1)"
    "console ?s2 = console ?s1" "shape_id sh = shape_id sh0"
    by blast
  have g: "run_part000 s (drawGesture e0 now colour es) = next_part000 ?s2 MouseUp"
    by (simp add: drawGesture_def run_part000_Cons run_part000_append run_part000_Nil)
  from up_part000 [OF m(1,2)] m d show ?thesis
    unfolding g by (simp add: run_part000_Cons logShapeUpdate_rounds)
qed

subsection \<open>src/components/PaintApp.js\<close>

lemma down_PaintApp:
  assumes "selectedShape s = None" "pointerPosition e = Some (ax, ay)"
  shows "\<exists>sh. isDrawing (next_PaintApp s (MouseDown e now colour)) \<and>
    shapes (next_PaintApp s (MouseDown e now colour)) = shapes s @ [sh] \<and>
    console (next_PaintApp s (MouseDown e now colour)) =
      console s @ [logShapeUpdate ''create'' sh] \<and>
    shape_id sh = Some (IdNum now) \<and>
    shape_type sh = Some (selectedTool s) \<and> shape_x sh = ax \<and> shape_y sh = ay \<and>
    shape_width sh = 0 \<and> shape_height sh = 0 \<and> shape_radius sh = 0"
  using assms
  by (simp add: next_PaintApp_def render_def handleMouseDown_PaintApp_def Let_def)

lemma move_PaintApp:
  assumes "isDrawing s" "shapes s \<noteq> []" "last (shapes s) = sh"
    and "pointerPosition e = Some (px, py)"
  shows "\<exists>sh'. isDrawing (next_PaintApp s (MouseMove e)) \<and>
    shapes (next_PaintApp s (MouseMove e)) \<noteq> [] \<and>
    last (shapes (next_PaintApp s (MouseMove e))) = sh' \<and>
    length (shapes (next_PaintApp s (MouseMove e))) = length (shapes s) \<and>
    console (next_PaintApp s (MouseMove e)) = console s \<and>
    shape_id sh' = shape_id sh \<and> shape_type sh' = shape_type sh \<and>
    shape_x sh' = shape_x sh \<and> shape_y sh' = shape_y sh \<and>
    (shape_type sh = Some RECTANGLE \<longrightarrow>
       shape_width sh' = px - shape_x sh \<and> shape_height sh' = py - shape_y sh)"
  using assms
  by (simp add: next_PaintApp_def render_def handleMouseMove_PaintApp_def Let_def)

lemma moves_PaintApp:
  assumes "isDrawing s" "shapes s \<noteq> []" "last (shapes s) = sh"
    and "\<forall>e \<in> set es. pointerPosition e \<noteq> None"
  shows "\<exists>sh'. isDrawing (run_PaintApp s (map MouseMove es)) \<and>
    shapes (run_PaintApp s (map MouseMove es)) \<noteq> [] \<and>
    last (shapes (run_PaintApp s (map MouseMove es))) = sh' \<and>
    length (shapes (run_PaintApp s (map MouseMove es))) = length (shapes s) \<and>
    console (run_PaintApp s (map MouseMove es)) = console s \<and>
    shape_id sh' = shape_id sh \<and> shape_type sh' = shape_type sh \<and>
    shape_x sh' = shape_x sh \<and> shape_y sh' = shape_y sh"
  using assms
proof (induction es arbitrary: s sh)
  case Nil
  then show ?case
    by (simp add: run_PaintApp_def)
next
  case (Cons e es)
  from Cons.prems(4) obtain px py where "pointerPosition e = Some (px, py)"
    by fastforce
  from move_PaintApp [OF Cons.prems(1-3) this]
  obtain sh1 where 1: "isDrawing (next_PaintApp s (MouseMove e))"
    "shapes (next_PaintApp s (MouseMove e)) \<noteq> []"
    "last (shapes (next_PaintApp s (MouseMove e))) = sh1"
    and 2: "length (shapes (next_PaintApp s (MouseMove e))) = length (shapes s)"
    "console (next_PaintApp s (MouseMove e)) = console s"
    "shape_id sh1 = shape_id sh" "shape_type sh1 = shape_type sh"
    "shape_x sh1 = shape_x sh" "shape_y sh1 = shape_y sh"
    by blast
  from Cons.prems(4) have "\<forall>e \<in> set es. pointerPosition e \<noteq> None"
    by simp
  from Cons.IH [OF 1 this] 2 show ?case
    by (simp add: run_PaintApp_def)
qed

lemma up_PaintApp:
  assumes "isDrawing s" "shapes s \<noteq> []"
  shows "console (next_PaintApp s MouseUp) =
      console s @ [logShapeUpdate ''modify'' (last (shapes s))] \<and>
    shapes (next_PaintApp s MouseUp) = shapes s \<and> \<not> isDrawing (next_PaintApp s MouseUp)"
  using assms
  by (simp add: next_PaintApp_def render_def handleMouseUp_PaintApp_def Let_def)

lemma run_PaintApp_append:
  "run_PaintApp s (xs @ ys) = run_PaintApp (run_PaintApp s xs) ys"
  by (simp add: run_PaintApp_def)

lemma run_PaintApp_Cons:
  "run_PaintApp s (ev # evs) = run_PaintApp (next_PaintApp s ev) evs"
  by (simp add: run_PaintApp_def)

lemma run_PaintApp_Nil:
  "run_PaintApp s [] = s"
  by (simp add: run_PaintApp_def)

text \<open>
  C1, on the code of \<^verbatim>\<open>src/components/PaintApp.js\<close>: the gesture that draws a rectangle
  from \<open>(10, 10)\<close> to \<open>(50, 80)\<close> logs two records for the shape. The pointer-down already
  logs the \<open>create\<close> record, with extent 0; the pointer-up logs a \<open>modify\<close> record with
  the final extent.
\<close>

theorem draw_gesture_logs_twice_PaintApp:
  "console (next_PaintApp initial_PaintApp (MouseDown (canvas_at 10 10) 5 ''#aa0000'')) =
     [\<lparr>log_action = ''create'', log_id = Some (IdNum 5), log_type = Some RECTANGLE,
       log_x = 10, log_y = 10, log_width = 0, log_height = 0, log_radius = 0,
       log_fill = Some ''#aa0000''\<rparr>] \<and>
   console (run_PaintApp initial_PaintApp
      (drawGesture (canvas_at 10 10) 5 ''#aa0000'' [canvas_at 50 80])) =
     [\<lparr>log_action = ''create'', log_id = Some (IdNum 5), log_type = Some RECTANGLE,
       log_x = 10, log_y = 10, log_width = 0, log_height = 0, log_radius = 0,
       log_fill = Some ''#aa0000''\<rparr>,
      \<lparr>log_action = ''modify'', log_id = Some (IdNum 5), log_type = Some RECTANGLE,
       log_x = 10, log_y = 10, log_width = 40, log_height = 70, log_radius = 0,
       log_fill = Some ''#aa0000''\<rparr>]"
  by (simp add: trace_defs handlers_PaintApp)

subsection \<open>Rectangles drawn leftwards or upwards\<close>

lemma negative_extent_PaintApp:
  assumes "selectedShape s = None" "selectedTool s = RECTANGLE"
    and "pointerPosition e0 = Some (ax, ay)" "\<forall>e \<in> set es. pointerPosition e \<noteq> None"
    and "pointerPosition e1 = Some (px, py)"
  shows "\<exists>sh ev. shapes (run_PaintApp s (drawGesture e0 now colour (es @ [e1]))) \<noteq> [] \<and>
    last (shapes (run_PaintApp s (drawGesture e0 now colour (es @ [e1])))) = sh \<and>
    console (run_PaintApp s (drawGesture e0 now colour (es @ [e1]))) \<noteq> [] \<and>
    last (console (run_PaintApp s (drawGesture e0 now colour (es @ [e1])))) = ev \<and>
    shape_id sh = Some (IdNum now) \<and> shape_type sh = Some RECTANGLE \<and>
    shape_width sh = px - ax \<and> shape_height sh = py - ay \<and>
    log_action ev = ''modify'' \<and> log_id ev = shape_id sh \<and>
    log_width ev = round (px - ax) \<and> log_height ev = round (py - ay)"
proof -
  let ?s1 = "next_PaintApp s (MouseDown e0 now colour)"
  let ?s2 = "run_PaintApp ?s1 (map MouseMove es)"
  let ?s3 = "next_PaintApp ?s2 (MouseMove e1)"
  from down_PaintApp [OF assms(1,3), of now colour] assms(2)
  obtain sh0 where d: "isDrawing ?s1" "shapes ?s1 = shapes s @ [sh0]"
    "shape_id sh0 = Some (IdNum now)" "shape_type sh0 = Some RECTANGLE"
    "shape_x sh0 = ax" "shape_y sh0 = ay"
    by auto
  then have "shapes ?s1 \<noteq> []" "last (shapes ?s1) = sh0"
    by simp_all
  from moves_PaintApp [OF d(1) this assms(4)]
  obtain sh1 where m: "isDrawing ?s2" "shapes ?s2 \<noteq> []" "last (shapes ?s2) = sh1"
    and m': "shape_id sh1 = shape_id sh0" "shape_type sh1 = shape_type sh0"
    "shape_x sh1 = shape_x sh0" "shape_y sh1 = shape_y sh0"
    by blast
  from move_PaintApp [OF m assms(5)] m' d
  obtain sh where l: "isDrawing ?s3" "shapes ?s3 \<noteq> []" "last (shapes ?s3) = sh"
    "shape_id sh = Some (IdNum now)" "shape_type sh = Some RECTANGLE"
    "shape_width sh = px - ax" "shape_height sh = py - ay"
    by auto
  have g: "run_PaintApp s (drawGesture e0 now colour (es @ [e1])) = next_PaintApp ?s3 MouseUp"
    by (simp add: drawGesture_def run_PaintApp_Cons run_PaintApp_append run_PaintApp_Nil)
  from up_PaintApp [OF l(1,2)] l show ?thesis
    unfolding g by (simp add: logShapeUpdate_rounds)
qed

lemma negative_extent_part000:
  assumes "selectedShape s = None" "selectedTool s = RECTANGLE" "clickedOnEmpty e0"
    and "pointerPosition e0 = Some (ax, ay)" "\<forall>e \<in> set es. pointerPosition e \<noteq> None"
    and "pointerPosition e1 = Some (px, py)"
  shows "\<exists>sh ev. shapes (run_part000 s (drawGesture e0 now colour (es @ [e1]))) \<noteq> [] \<and>
    last (shapes (run_part000 s (drawGesture e0 now colour (es @ [e1])))) = sh \<and>
    console (run_part000 s (drawGesture e0 now colour (es @ [e1]))) \<noteq> [] \<and>
    last (console (run_part000 s (drawGesture e0 now colour (es @ [e1])))) = ev \<and>
    shape_id sh = Some (IdStr (''shape-'' @ decimal now)) \<and> shape_type sh = Some RECTANGLE \<and>
    shape_width sh = px - ax \<and> shape_height sh = py - ay \<and>
    log_action ev = ''create'' \<and> log_id ev = shape_id sh \<and>
    log_width ev = round (px - ax) \<and> log_height ev = round (py - ay)"
proof -
  let ?s1 = "next_part000 s (MouseDown e0 now colour)"
  let ?s2 = "run_part000 ?s1 (map MouseMove es)"
  let ?s3 = "next_part000 ?s2 (MouseMove e1)"
  from down_part000 [OF assms(1,3,4), of now colour] assms(2)
  obtain sh0 where d: "isDrawing ?s1" "newShape ?s1 = Some sh0"
    "shapes ?s1 = shapes s @ [sh0]"
    "shape_id sh0 = Some (IdStr (''shape-'' @ decimal now))" "shape_type sh0 = Some RECTANGLE"
    "shape_x sh0 = ax" "shape_y sh0 = ay"
    by auto
  then have "shapes ?s1 \<noteq> []" "last (shapes ?s1) = sh0"
    by simp_all
  from moves_part000 [OF d(1,2) this assms(5)]
  obtain sh1 where m: "isDrawing ?s2" "newShape ?s2 = Some sh1" "shapes ?s2 \<noteq> []"
    "last (shapes ?s2) = sh1"
    and m': "shape_id sh1 = shape_id sh0" "shape_type sh1 = shape_type sh0"
    "shape_x sh1 = shape_x sh0" "shape_y sh1 = shape_y sh0"
    by blast
  from move_part000 [OF m assms(6)] m' d
  obtain sh where l: "isDrawing ?s3" "newShape ?s3 = Some sh" "shapes ?s3 \<noteq> []"
    "last (shapes ?s3) = sh"
    "shape_id sh = Some (IdStr (''shape-'' @ decimal now))" "shape_type sh = Some RECTANGLE"
    "shape_width sh = px - ax" "shape_height sh = py - ay"
    by auto
  have g: "run_part000 s (drawGesture e0 now colour (es @ [e1])) = next_part000 ?s3 MouseUp"
    by (simp add: drawGesture_def run_part000_Cons run_part000_append run_part000_Nil)
  from up_part000 [OF l(1,2)] l show ?thesis
    unfolding g by (simp add: logShapeUpdate_rounds)
qed

text \<open>
  C10. A draw gesture with the rectangle tool, from a state with nothing selected, with
  anchor \<open>(ax, ay)\<close> and last pointer-move at \<open>(px, py)\<close>, where \<open>px < ax\<close> or \<open>py < ay\<close>:
  in both files the shape left at the end of the list has width \<open>px - ax\<close> and height
  \<open>py - ay\<close>, one of them negative, and the record logged at the pointer-up carries that
  shape's id and the rounded values \<open>round (px - ax)\<close> and \<open>round (py - ay)\<close>, not a
  normalised extent.
\<close>

theorem leftward_rectangle_keeps_negative_extent:
  "(selectedShape a = None \<and> selectedTool a = RECTANGLE \<and> selectedShape b = None \<and>
    selectedTool b = RECTANGLE \<and> clickedOnEmpty e0 \<and> pointerPosition e0 = Some (ax, ay) \<and>
    (\<forall>e \<in> set es. pointerPosition e \<noteq> None) \<and> pointerPosition e1 = Some (px, py) \<and>
    (px < ax \<or> py < ay)) \<longrightarrow>
   (\<exists>sh ev. last (shapes (run_PaintApp a (drawGesture e0 now colour (es @ [e1])))) = sh \<and>
      last (console (run_PaintApp a (drawGesture e0 now colour (es @ [e1])))) = ev \<and>
      shape_type sh = Some RECTANGLE \<and>
      shape_width sh = px - ax \<and> shape_height sh = py - ay \<and>
      (shape_width sh < 0 \<or> shape_height sh < 0) \<and>
      log_id ev = shape_id sh \<and> log_width ev = round (shape_width sh) \<and>
      log_height ev = round (shape_height sh) \<and>
      (px < ax \<longrightarrow> log_width ev \<le> 0) \<and> (py < ay \<longrightarrow> log_height ev \<le> 0)) \<and>
   (\<exists>sh ev. last (shapes (run_part000 b (drawGesture e0 now colour (es @ [e1])))) = sh \<and>
      last (console (run_part000 b (drawGesture e0 now colour (es @ [e1])))) = ev \<and>
      shape_type sh = Some RECTANGLE \<and>
      shape_width sh = px - ax \<and> shape_height sh = py - ay \<and>
      (shape_width sh < 0 \<or> shape_height sh < 0) \<and>
      log_id ev = shape_id sh \<and> log_width ev = round (shape_width sh) \<and>
      log_height ev = round (shape_height sh) \<and>
      (px < ax \<longrightarrow> log_width ev \<le> 0) \<and> (py < ay \<longrightarrow> log_height ev \<le> 0))"
  (is "?H \<longrightarrow> ?A \<and> ?B")
proof (intro impI, elim conjE)
  assume h: "selectedShape a = None" "selectedTool a = RECTANGLE" "selectedShape b = None"
    "selectedTool b = RECTANGLE" "clickedOnEmpty e0" "pointerPosition e0 = Some (ax, ay)"
    "\<forall>e \<in> set es. pointerPosition e \<noteq> None" "pointerPosition e1 = Some (px, py)"
    "px < ax \<or> py < ay"
  have neg: "px - ax < 0 \<or> py - ay < 0"
    using h(9) by auto
  have r: "(px < ax \<longrightarrow> round (px - ax) \<le> 0) \<and> (py < ay \<longrightarrow> round (py - ay) \<le> 0)"
    by (simp add: round_negative)
  from negative_extent_PaintApp [OF h(1,2,6,7,8), of now colour] neg r
  have A: ?A
    by auto
  from negative_extent_part000 [OF h(3,4,5,6,7,8), of now colour] neg r
  have B: ?B
    by auto
  from A B show "?A \<and> ?B"
    by (rule conjI)
qed

text \<open>
  An instance in both files: anchor \<open>(100, 100)\<close>, a move to \<open>(120, 110)\<close>, a last move
  to \<open>(90, 130)\<close>. The stored width is \<open>-10\<close> and so is the logged one.
\<close>

theorem leftward_rectangle_keeps_negative_extent_witness:
  "shape_width (last (shapes (run_PaintApp initial_PaintApp
      (drawGesture (canvas_at 100 100) 7 ''#00bb00'' [canvas_at 120 110, canvas_at 90 130])))) =
     - 10 \<and>
   log_width (last (console (run_PaintApp initial_PaintApp
      (drawGesture (canvas_at 100 100) 7 ''#00bb00'' [canvas_at 120 110, canvas_at 90 130])))) =
     - 10 \<and>
   shape_width (last (shapes (run_part000 initial_part000
      (drawGesture (canvas_at 100 100) 7 ''#00bb00'' [canvas_at 120 110, canvas_at 90 130])))) =
     - 10 \<and>
   log_width (last (console (run_part000 initial_part000
      (drawGesture (canvas_at 100 100) 7 ''#00bb00'' [canvas_at 120 110, canvas_at 90 130])))) =
     - 10"
proof -
  have "selectedShape initial_PaintApp = None \<and> selectedTool initial_PaintApp = RECTANGLE \<and>
    selectedShape initial_part000 = None \<and> selectedTool initial_part000 = RECTANGLE \<and>
    clickedOnEmpty (canvas_at 100 100) \<and>
    pointerPosition (canvas_at 100 100) = Some (100, 100) \<and>
    (\<forall>e \<in> set [canvas_at 120 110]. pointerPosition e \<noteq> None) \<and>
    pointerPosition (canvas_at 90 130) = Some (90, 130) \<and> ((90::real) < 100 \<or> (130::real) < 100)"
    by (simp add: initial_PaintApp_def initial_part000_def canvas_at_def)
  with leftward_rectangle_keeps_negative_extent
    [of initial_PaintApp initial_part000 "canvas_at 100 100" 100 100 "[canvas_at 120 110]"
      "canvas_at 90 130" 90 130 7 "''#00bb00''"]
  show ?thesis
    by simp
qed


section \<open>Shape ids\<close>

lemma of_char_digit: "d < 10 \<Longrightarrow> of_char (digit d) = 48 + d"
  by (simp add: digit_def)

lemma undecimal_snoc: "undecimal (cs @ [c]) = 10 * undecimal cs + (of_char c - 48)"
  by (simp add: undecimal_def)

lemma decimal_small: "n < 10 \<Longrightarrow> decimal n = [digit n]"
  by (subst decimal.simps) simp

lemma decimal_large: "\<not> n < 10 \<Longrightarrow> decimal n = decimal (n div 10) @ [digit (n mod 10)]"
  by (subst decimal.simps) simp

lemma undecimal_small: "n < 10 \<Longrightarrow> undecimal (decimal n) = n"
  by (simp add: decimal_small undecimal_def of_char_digit)

lemma undecimal_large:
  assumes "\<not> n < 10" "undecimal (decimal (n div 10)) = n div 10"
  shows "undecimal (decimal n) = n"
proof -
  have "of_char (digit (n mod 10)) = 48 + n mod 10"
    by (rule of_char_digit) simp
  then have "undecimal (decimal n) = 10 * (n div 10) + n mod 10"
    by (simp only: decimal_large [OF assms(1)] undecimal_snoc assms(2) add_diff_cancel_left')
  then show ?thesis
    by simp
qed


lemma undecimal_decimal: "undecimal (decimal n) = n"
proof (induction n rule: less_induct)
  case (less n)
  show ?case
  proof (cases "n < 10")
    case True
    then show ?thesis
      by (rule undecimal_small)
  next
    case False
    then have "n div 10 < n"
      by simp
    then have "undecimal (decimal (n div 10)) = n div 10"
      by (rule less)
    with False show ?thesis
      by (rule undecimal_large)
  qed
qed

lemma decimal_inject: "decimal m = decimal n \<Longrightarrow> m = n"
proof -
  assume "decimal m = decimal n"
  then have "undecimal (decimal m) = undecimal (decimal n)"
    by (rule arg_cong)
  then show "m = n"
    by (simp only: undecimal_decimal)
qed

lemma ids_replace:
  "map shape_id (map (\<lambda>sh. if shape_id sh = shape_id u then u else sh) xs) = map shape_id xs"
  by (induction xs) simp_all

lemma ids_butlast_snoc:
  "xs \<noteq> [] \<Longrightarrow> map shape_id (butlast xs) @ [shape_id (last xs)] = map shape_id xs"
  by (cases xs rule: rev_cases) simp_all

lemma ids_filter:
  "map shape_id (filter (\<lambda>sh. shape_id sh \<noteq> i) xs) = filter (\<lambda>j. j \<noteq> i) (map shape_id xs)"
  by (induction xs) simp_all

lemma shapes_render: "shapes (render s) = shapes s"
  by (simp add: render_def)

lemma ids_move_PaintApp:
  "map shape_id (shapes (state_of (handleMouseMove_PaintApp s e))) = map shape_id (shapes s)"
proof (cases "pointerPosition e")
  case None
  then show ?thesis
    by (simp add: handleMouseMove_PaintApp_def Let_def)
next
  case (Some p)
  obtain px py where "p = (px, py)"
    by (cases p)
  with Some show ?thesis
    by (simp add: handleMouseMove_PaintApp_def Let_def ids_butlast_snoc)
qed

lemma ids_move_part000:
  "map shape_id (shapes (state_of (handleMouseMove_part000 s e))) = map shape_id (shapes s)"
proof (cases "pointerPosition e")
  case None
  then show ?thesis
    by (simp add: handleMouseMove_part000_def Let_def split: option.splits)
next
  case (Some p)
  obtain px py where "p = (px, py)"
    by (cases p)
  with Some show ?thesis
    by (simp add: handleMouseMove_part000_def Let_def ids_replace split: option.splits)
qed

lemma ids_down_PaintApp:
  "(\<exists>sh. shapes (state_of (handleMouseDown_PaintApp s e now colour)) = shapes s @ [sh] \<and>
      shape_id sh = Some (IdNum now)) \<or>
   shapes (state_of (handleMouseDown_PaintApp s e now colour)) = shapes s"
proof (cases "pointerPosition e")
  case None
  then show ?thesis
    by (simp add: handleMouseDown_PaintApp_def)
next
  case (Some p)
  obtain px py where "p = (px, py)"
    by (cases p)
  with Some show ?thesis
    by (simp add: handleMouseDown_PaintApp_def Let_def)
qed

lemma ids_down_part000:
  "(\<exists>sh. shapes (state_of (handleMouseDown_part000 s e now colour)) = shapes s @ [sh] \<and>
      shape_id sh = Some (IdStr (''shape-'' @ decimal now))) \<or>
   shapes (state_of (handleMouseDown_part000 s e now colour)) = shapes s"
proof (cases "pointerPosition e")
  case None
  then show ?thesis
    by (simp add: handleMouseDown_part000_def Let_def)
next
  case (Some p)
  obtain px py where "p = (px, py)"
    by (cases p)
  with Some show ?thesis
    by (simp add: handleMouseDown_part000_def Let_def)
qed

lemma ids_delete_PaintApp:
  "\<exists>P. map shape_id (shapes (state_of (handleDelete_PaintApp s))) =
     filter P (map shape_id (shapes s))"
proof (cases "selectedShape s")
  case None
  then show ?thesis
    by (intro exI [of _ "\<lambda>j. True"]) (simp add: handleDelete_PaintApp_def)
next
  case (Some sel)
  then show ?thesis
    by (intro exI [of _ "\<lambda>j. j \<noteq> shape_id sel"])
      (simp add: handleDelete_PaintApp_def ids_filter)
qed

lemma ids_delete_part000:
  "\<exists>P. map shape_id (shapes (state_of (handleDelete_part000 s))) =
     filter P (map shape_id (shapes s))"
proof (cases "selectedShape s")
  case None
  then show ?thesis
    by (intro exI [of _ "\<lambda>j. True"]) (simp add: handleDelete_part000_def)
next
  case (Some sel)
  then show ?thesis
    by (intro exI [of _ "\<lambda>j. j \<noteq> shape_id sel"])
      (simp add: handleDelete_part000_def ids_filter)
qed

text \<open>
  One event either appends one shape, whose id is made from the timestamp of the
  pointer-down, or filters the list of ids (often leaving it as it is).
\<close>

lemma step_ids_PaintApp:
  "(\<exists>e now colour sh. ev = MouseDown e now colour \<and>
      shapes (next_PaintApp s ev) = shapes s @ [sh] \<and> shape_id sh = Some (IdNum now)) \<or>
   (\<exists>P. map shape_id (shapes (next_PaintApp s ev)) = filter P (map shape_id (shapes s)))"
  (is "?new \<or> ?old")
proof -
  have same: "?old" if "map shape_id (shapes (next_PaintApp s ev)) = map shape_id (shapes s)"
    using that by (intro exI [of _ "\<lambda>j. True"]) simp
  show ?thesis
  proof (cases ev)
    case (MouseDown e now colour)
    from ids_down_PaintApp [of s e now colour] show ?thesis
    proof
      assume "\<exists>sh. shapes (state_of (handleMouseDown_PaintApp s e now colour)) = shapes s @ [sh]
        \<and> shape_id sh = Some (IdNum now)"
      with MouseDown have ?new
        by (simp add: next_PaintApp_def shapes_render)
      then show ?thesis ..
    next
      assume "shapes (state_of (handleMouseDown_PaintApp s e now colour)) = shapes s"
      with MouseDown have ?old
        by (intro same) (simp add: next_PaintApp_def shapes_render)
      then show ?thesis ..
    qed
  next
    case (MouseMove e)
    then have ?old
      by (intro same) (simp add: next_PaintApp_def shapes_render ids_move_PaintApp)
    then show ?thesis ..
  next
    case MouseUp
    then have ?old
      by (intro same)
        (simp add: next_PaintApp_def shapes_render handleMouseUp_PaintApp_def Let_def)
    then show ?thesis ..
  next
    case (ShapeSelect shape)
    then have ?old
      by (intro same)
        (simp add: next_PaintApp_def shapes_render handleShapeSelect_PaintApp_def
          split: option.splits)
    then show ?thesis ..
  next
    case (TransformEnd n)
    then have ?old
      by (intro same)
        (simp add: next_PaintApp_def shapes_render handleTransformEnd_PaintApp_def Let_def
          ids_replace)
    then show ?thesis ..
  next
    case Delete
    with ids_delete_PaintApp [of s] have ?old
      by (simp add: next_PaintApp_def shapes_render)
    then show ?thesis ..
  next
    case (SetSelectedTool t)
    then have ?old
      by (intro same) (simp add: next_PaintApp_def shapes_render)
    then show ?thesis ..
  qed
qed

lemma step_ids_part000:
  "(\<exists>e now colour sh. ev = MouseDown e now colour \<and>
      shapes (next_part000 s ev) = shapes s @ [sh] \<and>
      shape_id sh = Some (IdStr (''shape-'' @ decimal now))) \<or>
   (\<exists>P. map shape_id (shapes (next_part000 s ev)) = filter P (map shape_id (shapes s)))"
  (is "?new \<or> ?old")
proof -
  have same: "?old" if "map shape_id (shapes (next_part000 s ev)) = map shape_id (shapes s)"
    using that by (intro exI [of _ "\<lambda>j. True"]) simp
  show ?thesis
  proof (cases ev)
    case (MouseDown e now colour)
    from ids_down_part000 [of s e now colour] show ?thesis
    proof
      assume "\<exists>sh. shapes (state_of (handleMouseDown_part000 s e now colour)) = shapes s @ [sh]
        \<and> shape_id sh = Some (IdStr (''shape-'' @ decimal now))"
      with MouseDown have ?new
        by (simp add: next_part000_def shapes_render)
      then show ?thesis ..
    next
      assume "shapes (state_of (handleMouseDown_part000 s e now colour)) = shapes s"
      with MouseDown have ?old
        by (intro same) (simp add: next_part000_def shapes_render)
      then show ?thesis ..
    qed
  next
    case (MouseMove e)
    then have ?old
      by (intro same) (simp add: next_part000_def shapes_render ids_move_part000)
    then show ?thesis ..
  next
    case MouseUp
    then have ?old
      by (intro same)
        (simp add: next_part000_def shapes_render handleMouseUp_part000_def
          split: option.splits)
    then show ?thesis ..
  next
    case (ShapeSelect shape)
    then have ?old
      by (intro same) (simp add: next_part000_def shapes_render handleShapeSelect_part000_def)
    then show ?thesis ..
  next
    case (TransformEnd n)
    then have ?old
      by (intro same)
        (simp add: next_part000_def shapes_render handleTransformEnd_part000_def Let_def
          ids_replace)
    then show ?thesis ..
  next
    case Delete
    with ids_delete_part000 [of s] have ?old
      by (simp add: next_part000_def shapes_render)
    then show ?thesis ..
  next
    case (SetSelectedTool t)
    then have ?old
      by (intro same) (simp add: next_part000_def shapes_render)
    then show ?thesis ..
  qed
qed

lemma fresh_step_PaintApp:
  assumes "distinct (map shape_id (shapes s))"
    and "distinct (creations_PaintApp s (ev # evs))"
    and "\<forall>t \<in> set (creations_PaintApp s (ev # evs)).
      Some (IdNum t) \<notin> set (map shape_id (shapes s))"
  shows "distinct (map shape_id (shapes (next_PaintApp s ev))) \<and>
    distinct (creations_PaintApp (next_PaintApp s ev) evs) \<and>
    (\<forall>t \<in> set (creations_PaintApp (next_PaintApp s ev) evs).
      Some (IdNum t) \<notin> set (map shape_id (shapes (next_PaintApp s ev))))"
  using step_ids_PaintApp [of ev s]
proof (elim disjE exE conjE)
  fix e now colour sh
  assume ev: "ev = MouseDown e now colour"
    and sh: "shapes (next_PaintApp s ev) = shapes s @ [sh]" "shape_id sh = Some (IdNum now)"
  then have c: "creations_PaintApp s (ev # evs) =
      now # creations_PaintApp (next_PaintApp s ev) evs"
    by simp
  from assms(2) have 1: "now \<notin> set (creations_PaintApp (next_PaintApp s ev) evs)"
    "distinct (creations_PaintApp (next_PaintApp s ev) evs)"
    unfolding c by simp_all
  from assms(3) have 2: "Some (IdNum now) \<notin> set (map shape_id (shapes s))"
    "\<forall>t \<in> set (creations_PaintApp (next_PaintApp s ev) evs).
      Some (IdNum t) \<notin> set (map shape_id (shapes s))"
    unfolding c by simp_all
  have 3: "map shape_id (shapes (next_PaintApp s ev)) =
      map shape_id (shapes s) @ [Some (IdNum now)]"
    by (simp add: sh)
  from assms(1) 1 2 show ?thesis
    unfolding 3 by auto
next
  fix P
  assume ids: "map shape_id (shapes (next_PaintApp s ev)) = filter P (map shape_id (shapes s))"
  have "length (map shape_id (shapes (next_PaintApp s ev))) \<le> length (map shape_id (shapes s))"
    unfolding ids by (rule length_filter_le)
  then have "creations_PaintApp s (ev # evs) = creations_PaintApp (next_PaintApp s ev) evs"
    by (cases ev) simp_all
  with assms show ?thesis
    unfolding ids by auto
qed

lemma fresh_step_part000:
  assumes "distinct (map shape_id (shapes s))"
    and "distinct (creations_part000 s (ev # evs))"
    and "\<forall>t \<in> set (creations_part000 s (ev # evs)).
      Some (IdStr (''shape-'' @ decimal t)) \<notin> set (map shape_id (shapes s))"
  shows "distinct (map shape_id (shapes (next_part000 s ev))) \<and>
    distinct (creations_part000 (next_part000 s ev) evs) \<and>
    (\<forall>t \<in> set (creations_part000 (next_part000 s ev) evs).
      Some (IdStr (''shape-'' @ decimal t)) \<notin> set (map shape_id (shapes (next_part000 s ev))))"
  using step_ids_part000 [of ev s]
proof (elim disjE exE conjE)
  fix e now colour sh
  assume ev: "ev = MouseDown e now colour"
    and sh: "shapes (next_part000 s ev) = shapes s @ [sh]"
      "shape_id sh = Some (IdStr (''shape-'' @ decimal now))"
  then have c: "creations_part000 s (ev # evs) =
      now # creations_part000 (next_part000 s ev) evs"
    by simp
  from assms(2) have 1: "now \<notin> set (creations_part000 (next_part000 s ev) evs)"
    "distinct (creations_part000 (next_part000 s ev) evs)"
    unfolding c by simp_all
  from assms(3) have 2:
    "Some (IdStr (''shape-'' @ decimal now)) \<notin> set (map shape_id (shapes s))"
    "\<forall>t \<in> set (creations_part000 (next_part000 s ev) evs).
      Some (IdStr (''shape-'' @ decimal t)) \<notin> set (map shape_id (shapes s))"
    unfolding c by simp_all
  have 3: "map shape_id (shapes (next_part000 s ev)) =
      map shape_id (shapes s) @ [Some (IdStr (''shape-'' @ decimal now))]"
    by (simp add: sh)
  from assms(1) 1 2 show ?thesis
    unfolding 3 by (auto dest: decimal_inject)
next
  fix P
  assume ids: "map shape_id (shapes (next_part000 s ev)) = filter P (map shape_id (shapes s))"
  have "length (map shape_id (shapes (next_part000 s ev))) \<le> length (map shape_id (shapes s))"
    unfolding ids by (rule length_filter_le)
  then have "creations_part000 s (ev # evs) = creations_part000 (next_part000 s ev) evs"
    by (cases ev) simp_all
  with assms show ?thesis
    unfolding ids by auto
qed

lemma distinct_ids_run_PaintApp:
  assumes "distinct (map shape_id (shapes s))"
    and "distinct (creations_PaintApp s evs)"
    and "\<forall>t \<in> set (creations_PaintApp s evs). Some (IdNum t) \<notin> set (map shape_id (shapes s))"
  shows "distinct (map shape_id (shapes (run_PaintApp s evs)))"
  using assms
proof (induction evs arbitrary: s)
  case Nil
  then show ?case
    by (simp add: run_PaintApp_Nil)
next
  case (Cons ev evs)
  from fresh_step_PaintApp [OF Cons.prems] Cons.IH [of "next_PaintApp s ev"] show ?case
    by (simp add: run_PaintApp_Cons)
qed

lemma distinct_ids_run_part000:
  assumes "distinct (map shape_id (shapes s))"
    and "distinct (creations_part000 s evs)"
    and "\<forall>t \<in> set (creations_part000 s evs).
      Some (IdStr (''shape-'' @ decimal t)) \<notin> set (map shape_id (shapes s))"
  shows "distinct (map shape_id (shapes (run_part000 s evs)))"
  using assms
proof (induction evs arbitrary: s)
  case Nil
  then show ?case
    by (simp add: run_part000_Nil)
next
  case (Cons ev evs)
  from fresh_step_part000 [OF Cons.prems] Cons.IH [of "next_part000 s ev"] show ?case
    by (simp add: run_part000_Cons)
qed

text \<open>
  C7 as stated fails in both files: two draw gestures whose pointer-downs read the same
  timestamp 5 leave two shapes with the same id.
\<close>

theorem same_tick_ids_collide:
  "map shape_id (shapes (run_PaintApp initial_PaintApp
      (drawGesture (canvas_at 10 10) 5 ''#aa0000'' [canvas_at 50 80] @
       drawGesture (canvas_at 100 100) 5 ''#00bb00'' [canvas_at 90 130]))) =
     [Some (IdNum 5), Some (IdNum 5)] \<and>
   map shape_id (shapes (run_part000 initial_part000
      (drawGesture (canvas_at 10 10) 5 ''#aa0000'' [canvas_at 50 80] @
       drawGesture (canvas_at 100 100) 5 ''#00bb00'' [canvas_at 90 130]))) =
     [Some (IdStr ''shape-5''), Some (IdStr ''shape-5'')]"
  by (simp add: trace_defs handlers_PaintApp handlers_part000 decimal_5)

text \<open>
  C7, amended. In every state reached from the initial state by a sequence of events in
  which no two shape creations read the same timestamp, the ids of the shapes in the
  list are pairwise distinct, in both files.
\<close>

theorem distinct_stamps_give_distinct_ids:
  "(distinct (creations_PaintApp initial_PaintApp evs) \<longrightarrow>
      distinct (map shape_id (shapes (run_PaintApp initial_PaintApp evs)))) \<and>
   (distinct (creations_part000 initial_part000 evs) \<longrightarrow>
      distinct (map shape_id (shapes (run_part000 initial_part000 evs))))"
proof -
  have "shapes initial_PaintApp = []" "shapes initial_part000 = []"
    by (simp_all add: initial_PaintApp_def initial_part000_def)
  then show ?thesis
    using distinct_ids_run_PaintApp [of initial_PaintApp evs]
      distinct_ids_run_part000 [of initial_part000 evs]
    by simp
qed

lemma creations_two_rectangles:
  "creations_PaintApp initial_PaintApp two_rectangles = [5, 7] \<and>
   creations_part000 initial_part000 two_rectangles = [5, 7]"
  by (simp add: two_rectangles_def trace_defs handlers_PaintApp handlers_part000)

theorem distinct_stamps_give_distinct_ids_witness:
  "creations_PaintApp initial_PaintApp two_rectangles = [5, 7] \<and>
   creations_part000 initial_part000 two_rectangles = [5, 7] \<and>
   distinct (map shape_id (shapes (run_PaintApp initial_PaintApp two_rectangles))) \<and>
   distinct (map shape_id (shapes (run_part000 initial_part000 two_rectangles)))"
  using distinct_stamps_give_distinct_ids [of two_rectangles]
  by (simp add: creations_two_rectangles)


section \<open>The fields a shape's type does not use\<close>

lemma newShape_render: "newShape (render s) = newShape s"
  by (simp add: render_def)

lemma down_cases_PaintApp:
  "shapes (state_of (handleMouseDown_PaintApp s e now colour)) = shapes s \<or>
   (\<exists>sh. shapes (state_of (handleMouseDown_PaintApp s e now colour)) = shapes s @ [sh] \<and>
      shape_width sh = 0 \<and> shape_height sh = 0 \<and> shape_radius sh = 0)"
proof (cases "pointerPosition e")
  case None
  then show ?thesis
    by (simp add: handleMouseDown_PaintApp_def)
next
  case (Some p)
  obtain px py where "p = (px, py)"
    by (cases p)
  with Some show ?thesis
    by (simp add: handleMouseDown_PaintApp_def Let_def)
qed

lemma down_cases_part000:
  "shapes (state_of (handleMouseDown_part000 s e now colour)) = shapes s \<and>
   newShape (state_of (handleMouseDown_part000 s e now colour)) = newShape s \<or>
   (\<exists>sh. shapes (state_of (handleMouseDown_part000 s e now colour)) = shapes s @ [sh] \<and>
      newShape (state_of (handleMouseDown_part000 s e now colour)) = Some sh \<and>
      shape_width sh = 0 \<and> shape_height sh = 0 \<and> shape_radius sh = 0)"
proof (cases "pointerPosition e")
  case None
  then show ?thesis
    by (simp add: handleMouseDown_part000_def Let_def)
next
  case (Some p)
  obtain px py where "p = (px, py)"
    by (cases p)
  with Some show ?thesis
    by (simp add: handleMouseDown_part000_def Let_def)
qed

lemma move_cases_PaintApp:
  "shapes (state_of (handleMouseMove_PaintApp s e)) = shapes s \<or>
   shapes s \<noteq> [] \<and>
   ((\<exists>w h. shape_type (last (shapes s)) = Some RECTANGLE \<and>
       shapes (state_of (handleMouseMove_PaintApp s e)) =
         butlast (shapes s) @ [(last (shapes s))\<lparr>shape_width := w, shape_height := h\<rparr>]) \<or>
    (\<exists>r. shape_type (last (shapes s)) = Some CIRCLE \<and>
       shapes (state_of (handleMouseMove_PaintApp s e)) =
         butlast (shapes s) @ [(last (shapes s))\<lparr>shape_radius := r\<rparr>]))"
proof (cases "pointerPosition e")
  case None
  then show ?thesis
    by (simp add: handleMouseMove_PaintApp_def Let_def)
next
  case (Some p)
  obtain px py where "p = (px, py)"
    by (cases p)
  with Some show ?thesis
    by (simp add: handleMouseMove_PaintApp_def Let_def) blast
qed

lemma move_cases_part000:
  "shapes (state_of (handleMouseMove_part000 s e)) = shapes s \<and>
   newShape (state_of (handleMouseMove_part000 s e)) = newShape s \<or>
   (\<exists>ns u. newShape s = Some ns \<and>
      ((\<exists>w h. shape_type ns = Some RECTANGLE \<and>
          u = ns\<lparr>shape_width := w, shape_height := h\<rparr>) \<or>
       (\<exists>r. shape_type ns = Some CIRCLE \<and> u = ns\<lparr>shape_radius := r\<rparr>)) \<and>
      shapes (state_of (handleMouseMove_part000 s e)) =
        map (\<lambda>shape. if shape_id shape = shape_id ns then u else shape) (shapes s) \<and>
      newShape (state_of (handleMouseMove_part000 s e)) = Some u)"
proof (cases "newShape s")
  case None
  then show ?thesis
    by (simp add: handleMouseMove_part000_def)
next
  case ns: (Some ns)
  show ?thesis
  proof (cases "pointerPosition e")
    case None
    with ns show ?thesis
      by (simp add: handleMouseMove_part000_def)
  next
    case (Some p)
    obtain px py where "p = (px, py)"
      by (cases p)
    with Some ns show ?thesis
      by (simp add: handleMouseMove_part000_def Let_def) blast
  qed
qed

lemma snoc_preserves:
  "\<forall>sh \<in> set xs. Q sh \<Longrightarrow> Q u \<Longrightarrow> \<forall>sh \<in> set (xs @ [u]). Q sh"
  by simp

lemma butlast_snoc_preserves:
  "\<forall>sh \<in> set xs. Q sh \<Longrightarrow> Q u \<Longrightarrow> \<forall>sh \<in> set (butlast xs @ [u]). Q sh"
  by (auto dest: in_set_butlastD)

lemma replace_preserves:
  "\<forall>sh \<in> set xs. Q sh \<Longrightarrow> Q u \<Longrightarrow> \<forall>sh \<in> set (map (\<lambda>sh. if P sh then u else sh) xs). Q sh"
  by auto

text \<open>
  A property of single shapes that holds of a shape of extent 0 and survives resizing a
  rectangle's width and height and a circle's radius holds of all shapes after any
  event but a transform-end or drag-end, if it held before.
\<close>

lemma down_preserves_PaintApp:
  assumes Q: "\<forall>sh \<in> set (shapes s). Q sh"
    and new: "\<And>sh. shape_width sh = 0 \<Longrightarrow> shape_height sh = 0 \<Longrightarrow> shape_radius sh = 0 \<Longrightarrow> Q sh"
  shows "\<forall>sh \<in> set (shapes (state_of (handleMouseDown_PaintApp s e now colour))). Q sh"
  using down_cases_PaintApp [of s e now colour]
proof (elim disjE exE conjE)
  assume "shapes (state_of (handleMouseDown_PaintApp s e now colour)) = shapes s"
  with Q show ?thesis
    by simp
next
  fix sh
  assume eq: "shapes (state_of (handleMouseDown_PaintApp s e now colour)) = shapes s @ [sh]"
    and "shape_width sh = 0" "shape_height sh = 0" "shape_radius sh = 0"
  then have "Q sh"
    by (intro new)
  with Q show ?thesis
    unfolding eq by (rule snoc_preserves)
qed

lemma move_preserves_PaintApp:
  assumes Q: "\<forall>sh \<in> set (shapes s). Q sh"
    and rect: "\<And>sh w h. Q sh \<Longrightarrow> shape_type sh = Some RECTANGLE \<Longrightarrow>
      Q (sh\<lparr>shape_width := w, shape_height := h\<rparr>)"
    and circ: "\<And>sh r. Q sh \<Longrightarrow> shape_type sh = Some CIRCLE \<Longrightarrow> Q (sh\<lparr>shape_radius := r\<rparr>)"
  shows "\<forall>sh \<in> set (shapes (state_of (handleMouseMove_PaintApp s e))). Q sh"
  using move_cases_PaintApp [of s e]
proof (elim disjE exE conjE)
  assume "shapes (state_of (handleMouseMove_PaintApp s e)) = shapes s"
  with Q show ?thesis
    by simp
next
  fix w h
  assume ne: "shapes s \<noteq> []" and t: "shape_type (last (shapes s)) = Some RECTANGLE"
    and eq: "shapes (state_of (handleMouseMove_PaintApp s e)) =
      butlast (shapes s) @ [(last (shapes s))\<lparr>shape_width := w, shape_height := h\<rparr>]"
  from Q ne have "Q (last (shapes s))"
    by simp
  then have "Q ((last (shapes s))\<lparr>shape_width := w, shape_height := h\<rparr>)"
    using t by (rule rect)
  with Q show ?thesis
    unfolding eq by (rule butlast_snoc_preserves)
next
  fix r
  assume ne: "shapes s \<noteq> []" and t: "shape_type (last (shapes s)) = Some CIRCLE"
    and eq: "shapes (state_of (handleMouseMove_PaintApp s e)) =
      butlast (shapes s) @ [(last (shapes s))\<lparr>shape_radius := r\<rparr>]"
  from Q ne have "Q (last (shapes s))"
    by simp
  then have "Q ((last (shapes s))\<lparr>shape_radius := r\<rparr>)"
    using t by (rule circ)
  with Q show ?thesis
    unfolding eq by (rule butlast_snoc_preserves)
qed

lemma step_preserves_PaintApp:
  assumes Q: "\<forall>sh \<in> set (shapes s). Q sh"
    and new: "\<And>sh. shape_width sh = 0 \<Longrightarrow> shape_height sh = 0 \<Longrightarrow> shape_radius sh = 0 \<Longrightarrow> Q sh"
    and rect: "\<And>sh w h. Q sh \<Longrightarrow> shape_type sh = Some RECTANGLE \<Longrightarrow>
      Q (sh\<lparr>shape_width := w, shape_height := h\<rparr>)"
    and circ: "\<And>sh r. Q sh \<Longrightarrow> shape_type sh = Some CIRCLE \<Longrightarrow> Q (sh\<lparr>shape_radius := r\<rparr>)"
    and ev: "\<not> is_TransformEnd ev"
  shows "\<forall>sh \<in> set (shapes (next_PaintApp s ev)). Q sh"
proof (cases ev)
  case (MouseDown e now colour)
  have "\<forall>sh \<in> set (shapes (state_of (handleMouseDown_PaintApp s e now colour))). Q sh"
    using Q new by (rule down_preserves_PaintApp)
  with MouseDown show ?thesis
    by (simp add: next_PaintApp_def shapes_render)
next
  case (MouseMove e)
  have "\<forall>sh \<in> set (shapes (state_of (handleMouseMove_PaintApp s e))). Q sh"
    using Q rect circ by (rule move_preserves_PaintApp)
  with MouseMove show ?thesis
    by (simp add: next_PaintApp_def shapes_render)
next
  case MouseUp
  with Q show ?thesis
    by (simp add: next_PaintApp_def shapes_render handleMouseUp_PaintApp_def Let_def)
next
  case (ShapeSelect shape)
  with Q show ?thesis
    by (simp add: next_PaintApp_def shapes_render handleShapeSelect_PaintApp_def
        split: option.splits)
next
  case (TransformEnd n)
  with ev show ?thesis
    by simp
next
  case Delete
  with Q show ?thesis
    by (simp add: next_PaintApp_def shapes_render handleDelete_PaintApp_def
        split: option.splits)
next
  case (SetSelectedTool t)
  with Q show ?thesis
    by (simp add: next_PaintApp_def shapes_render)
qed

lemma down_preserves_part000:
  assumes Q: "\<forall>sh \<in> set (shapes s). Q sh" and N: "\<forall>ns. newShape s = Some ns \<longrightarrow> Q ns"
    and new: "\<And>sh. shape_width sh = 0 \<Longrightarrow> shape_height sh = 0 \<Longrightarrow> shape_radius sh = 0 \<Longrightarrow> Q sh"
  shows "(\<forall>sh \<in> set (shapes (state_of (handleMouseDown_part000 s e now colour))). Q sh) \<and>
    (\<forall>ns. newShape (state_of (handleMouseDown_part000 s e now colour)) = Some ns \<longrightarrow> Q ns)"
  using down_cases_part000 [of s e now colour]
proof (elim disjE exE conjE)
  assume "shapes (state_of (handleMouseDown_part000 s e now colour)) = shapes s"
    "newShape (state_of (handleMouseDown_part000 s e now colour)) = newShape s"
  with Q N show ?thesis
    by simp
next
  fix sh
  assume eq: "shapes (state_of (handleMouseDown_part000 s e now colour)) = shapes s @ [sh]"
    "newShape (state_of (handleMouseDown_part000 s e now colour)) = Some sh"
    and "shape_width sh = 0" "shape_height sh = 0" "shape_radius sh = 0"
  then have "Q sh"
    by (intro new)
  with Q show ?thesis
    unfolding eq by simp
qed

lemma move_preserves_part000:
  assumes Q: "\<forall>sh \<in> set (shapes s). Q sh" and N: "\<forall>ns. newShape s = Some ns \<longrightarrow> Q ns"
    and rect: "\<And>sh w h. Q sh \<Longrightarrow> shape_type sh = Some RECTANGLE \<Longrightarrow>
      Q (sh\<lparr>shape_width := w, shape_height := h\<rparr>)"
    and circ: "\<And>sh r. Q sh \<Longrightarrow> shape_type sh = Some CIRCLE \<Longrightarrow> Q (sh\<lparr>shape_radius := r\<rparr>)"
  shows "(\<forall>sh \<in> set (shapes (state_of (handleMouseMove_part000 s e))). Q sh) \<and>
    (\<forall>ns. newShape (state_of (handleMouseMove_part000 s e)) = Some ns \<longrightarrow> Q ns)"
  using move_cases_part000 [of s e]
proof (elim disjE exE conjE)
  assume "shapes (state_of (handleMouseMove_part000 s e)) = shapes s"
    "newShape (state_of (handleMouseMove_part000 s e)) = newShape s"
  with Q N show ?thesis
    by simp
next
  fix ns u w h
  assume ns: "newShape s = Some ns" and t: "shape_type ns = Some RECTANGLE"
    and u: "u = ns\<lparr>shape_width := w, shape_height := h\<rparr>"
    and eq: "shapes (state_of (handleMouseMove_part000 s e)) =
      map (\<lambda>shape. if shape_id shape = shape_id ns then u else shape) (shapes s)"
      "newShape (state_of (handleMouseMove_part000 s e)) = Some u"
  from N ns have "Q ns"
    by simp
  then have "Q u"
    unfolding u using t by (rule rect)
  with replace_preserves [OF Q this] show ?thesis
    unfolding eq by simp
next
  fix ns u r
  assume ns: "newShape s = Some ns" and t: "shape_type ns = Some CIRCLE"
    and u: "u = ns\<lparr>shape_radius := r\<rparr>"
    and eq: "shapes (state_of (handleMouseMove_part000 s e)) =
      map (\<lambda>shape. if shape_id shape = shape_id ns then u else shape) (shapes s)"
      "newShape (state_of (handleMouseMove_part000 s e)) = Some u"
  from N ns have "Q ns"
    by simp
  then have "Q u"
    unfolding u using t by (rule circ)
  with replace_preserves [OF Q this] show ?thesis
    unfolding eq by simp
qed

lemma step_preserves_part000:
  assumes Q: "\<forall>sh \<in> set (shapes s). Q sh" and N: "\<forall>ns. newShape s = Some ns \<longrightarrow> Q ns"
    and new: "\<And>sh. shape_width sh = 0 \<Longrightarrow> shape_height sh = 0 \<Longrightarrow> shape_radius sh = 0 \<Longrightarrow> Q sh"
    and rect: "\<And>sh w h. Q sh \<Longrightarrow> shape_type sh = Some RECTANGLE \<Longrightarrow>
      Q (sh\<lparr>shape_width := w, shape_height := h\<rparr>)"
    and circ: "\<And>sh r. Q sh \<Longrightarrow> shape_type sh = Some CIRCLE \<Longrightarrow> Q (sh\<lparr>shape_radius := r\<rparr>)"
    and ev: "\<not> is_TransformEnd ev"
  shows "(\<forall>sh \<in> set (shapes (next_part000 s ev)). Q sh) \<and>
    (\<forall>ns. newShape (next_part000 s ev) = Some ns \<longrightarrow> Q ns)"
proof (cases ev)
  case (MouseDown e now colour)
  have "(\<forall>sh \<in> set (shapes (state_of (handleMouseDown_part000 s e now colour))). Q sh) \<and>
    (\<forall>ns. newShape (state_of (handleMouseDown_part000 s e now colour)) = Some ns \<longrightarrow> Q ns)"
    using Q N new by (rule down_preserves_part000)
  with MouseDown show ?thesis
    by (simp add: next_part000_def shapes_render newShape_render)
next
  case (MouseMove e)
  have "(\<forall>sh \<in> set (shapes (state_of (handleMouseMove_part000 s e))). Q sh) \<and>
    (\<forall>ns. newShape (state_of (handleMouseMove_part000 s e)) = Some ns \<longrightarrow> Q ns)"
    using Q N rect circ by (rule move_preserves_part000)
  with MouseMove show ?thesis
    by (simp add: next_part000_def shapes_render newShape_render)
next
  case MouseUp
  with Q N show ?thesis
    by (simp add: next_part000_def shapes_render newShape_render handleMouseUp_part000_def
        split: option.splits)
next
  case (ShapeSelect shape)
  with Q N show ?thesis
    by (simp add: next_part000_def shapes_render newShape_render
        handleShapeSelect_part000_def)
next
  case (TransformEnd n)
  with ev show ?thesis
    by simp
next
  case Delete
  with Q N show ?thesis
    by (simp add: next_part000_def shapes_render newShape_render handleDelete_part000_def
        split: option.splits)
next
  case (SetSelectedTool t)
  with Q N show ?thesis
    by (simp add: next_part000_def shapes_render newShape_render)
qed

lemma find_by_id:
  "distinct (map shape_id xs) \<Longrightarrow> sh \<in> set xs \<Longrightarrow>
   find (\<lambda>y. shape_id y = shape_id sh) xs = Some sh"
  by (induction xs) auto

lemma targets_Cons:
  "targets (ev # evs) = (case ev of TransformEnd n \<Rightarrow> [node_id n] | _ \<Rightarrow> []) @ targets evs"
  by (cases ev) simp_all

lemma circle_targets_Cons:
  "circle_targets (ev # evs) =
     (case ev of TransformEnd n \<Rightarrow> (if node_radius n \<noteq> None then [node_id n] else [])
      | _ \<Rightarrow> []) @ circle_targets evs"
  by (cases ev) simp_all

lemma find_Some_id:
  "find (\<lambda>sh. shape_id sh = i) xs = Some sh0 \<Longrightarrow> shape_id sh0 = i \<and> sh0 \<in> set xs"
  by (auto simp add: find_Some_iff)

text \<open>
  The list after a drag-end or transform-end: the entries with the id of the rebuilt
  shape \<open>u\<close> are replaced by it. \<open>u\<close> is the first shape with the node's id, given new
  geometry; when no shape has the node's id, \<open>u\<close> has neither id nor type.
\<close>

lemma shapes_transform_end_PaintApp:
  "\<exists>u. shapes (next_PaintApp s (TransformEnd n)) =
       map (\<lambda>shape. if shape_id shape = shape_id u then u else shape) (shapes s) \<and>
     (case find (\<lambda>sh. shape_id sh = node_id n) (shapes s) of
        None \<Rightarrow> shape_id u = None \<and> shape_type u = None
      | Some sh0 \<Rightarrow>
          u = sh0\<lparr>shape_x := node_x n, shape_y := node_y n,
                  shape_width := node_width n * node_scaleX n,
                  shape_height := node_height n * node_scaleY n,
                  shape_radius :=
                    (case node_radius n of None \<Rightarrow> 0 | Some r \<Rightarrow> r * node_scaleX n)\<rparr>)"
proof -
  define u where "u = (spread (find (\<lambda>sh. shape_id sh = node_id n) (shapes s)))
    \<lparr>shape_x := node_x n, shape_y := node_y n,
     shape_width := node_width n * node_scaleX n,
     shape_height := node_height n * node_scaleY n,
     shape_radius := (case node_radius n of None \<Rightarrow> 0 | Some r \<Rightarrow> r * node_scaleX n)\<rparr>"
  have "shapes (next_PaintApp s (TransformEnd n)) =
      map (\<lambda>shape. if shape_id shape = shape_id u then u else shape) (shapes s)"
    by (simp add: next_PaintApp_def shapes_render handleTransformEnd_PaintApp_def Let_def
        u_def)
  moreover have "case find (\<lambda>sh. shape_id sh = node_id n) (shapes s) of
        None \<Rightarrow> shape_id u = None \<and> shape_type u = None
      | Some sh0 \<Rightarrow>
          u = sh0\<lparr>shape_x := node_x n, shape_y := node_y n,
                  shape_width := node_width n * node_scaleX n,
                  shape_height := node_height n * node_scaleY n,
                  shape_radius :=
                    (case node_radius n of None \<Rightarrow> 0 | Some r \<Rightarrow> r * node_scaleX n)\<rparr>"
    by (simp add: u_def spread_def split: option.splits)
  ultimately show ?thesis
    by (intro exI [of _ u] conjI)
qed

lemma shapes_transform_end_part000:
  "\<exists>u. shapes (next_part000 s (TransformEnd n)) =
       map (\<lambda>shape. if shape_id shape = shape_id u then u else shape) (shapes s) \<and>
     (case find (\<lambda>sh. shape_id sh = node_id n) (shapes s) of
        None \<Rightarrow> shape_id u = None \<and> shape_type u = None
      | Some sh0 \<Rightarrow>
          u = sh0\<lparr>shape_x := node_x n, shape_y := node_y n,
                  shape_width := \<bar>node_width n * node_scaleX n\<bar>,
                  shape_height := \<bar>node_height n * node_scaleY n\<bar>,
                  shape_radius :=
                    (case node_radius n of None \<Rightarrow> 0 | Some r \<Rightarrow> \<bar>r * node_scaleX n\<bar>)\<rparr>)"
proof -
  define u where "u = (spread (find (\<lambda>sh. shape_id sh = node_id n) (shapes s)))
    \<lparr>shape_x := node_x n, shape_y := node_y n,
     shape_width := \<bar>node_width n * node_scaleX n\<bar>,
     shape_height := \<bar>node_height n * node_scaleY n\<bar>,
     shape_radius := (case node_radius n of None \<Rightarrow> 0 | Some r \<Rightarrow> \<bar>r * node_scaleX n\<bar>)\<rparr>"
  have "shapes (next_part000 s (TransformEnd n)) =
      map (\<lambda>shape. if shape_id shape = shape_id u then u else shape) (shapes s)"
    by (simp add: next_part000_def shapes_render handleTransformEnd_part000_def Let_def
        u_def)
  moreover have "case find (\<lambda>sh. shape_id sh = node_id n) (shapes s) of
        None \<Rightarrow> shape_id u = None \<and> shape_type u = None
      | Some sh0 \<Rightarrow>
          u = sh0\<lparr>shape_x := node_x n, shape_y := node_y n,
                  shape_width := \<bar>node_width n * node_scaleX n\<bar>,
                  shape_height := \<bar>node_height n * node_scaleY n\<bar>,
                  shape_radius :=
                    (case node_radius n of None \<Rightarrow> 0 | Some r \<Rightarrow> \<bar>r * node_scaleX n\<bar>)\<rparr>"
    by (simp add: u_def spread_def split: option.splits)
  ultimately show ?thesis
    by (intro exI [of _ u] conjI)
qed

lemma newShape_transform_end_part000:
  "newShape (next_part000 s (TransformEnd n)) = newShape s"
  by (simp add: next_part000_def newShape_render handleTransformEnd_part000_def Let_def)

text \<open>
  Without any assumption on the trace: a shape whose id no drag-end or transform-end
  has targeted keeps the fields its type does not use at 0.
\<close>

lemma transform_end_untargeted_PaintApp:
  assumes Q: "\<forall>sh \<in> set (shapes s). shape_id sh \<notin> T \<longrightarrow> unused_zero sh"
  shows "\<forall>sh \<in> set (shapes (next_PaintApp s (TransformEnd n))).
    shape_id sh \<notin> insert (node_id n) T \<longrightarrow> unused_zero sh"
proof -
  from shapes_transform_end_PaintApp [of s n]
  obtain u where eq: "shapes (next_PaintApp s (TransformEnd n)) =
      map (\<lambda>shape. if shape_id shape = shape_id u then u else shape) (shapes s)"
    and u: "case find (\<lambda>sh. shape_id sh = node_id n) (shapes s) of
        None \<Rightarrow> shape_id u = None \<and> shape_type u = None
      | Some sh0 \<Rightarrow>
          u = sh0\<lparr>shape_x := node_x n, shape_y := node_y n,
                  shape_width := node_width n * node_scaleX n,
                  shape_height := node_height n * node_scaleY n,
                  shape_radius :=
                    (case node_radius n of None \<Rightarrow> 0 | Some r \<Rightarrow> r * node_scaleX n)\<rparr>"
    by blast
  have "shape_id u \<notin> insert (node_id n) T \<longrightarrow> unused_zero u"
  proof (cases "find (\<lambda>sh. shape_id sh = node_id n) (shapes s)")
    case None
    with u show ?thesis
      by (simp add: unused_zero_def)
  next
    case (Some sh0)
    with u find_Some_id [OF Some] show ?thesis
      by simp
  qed
  moreover from Q have "\<forall>sh \<in> set (shapes s).
      shape_id sh \<notin> insert (node_id n) T \<longrightarrow> unused_zero sh"
    by simp
  ultimately show ?thesis
    unfolding eq by auto
qed

lemma transform_end_untargeted_part000:
  assumes Q: "\<forall>sh \<in> set (shapes s). shape_id sh \<notin> T \<longrightarrow> unused_zero sh"
  shows "\<forall>sh \<in> set (shapes (next_part000 s (TransformEnd n))).
    shape_id sh \<notin> insert (node_id n) T \<longrightarrow> unused_zero sh"
proof -
  from shapes_transform_end_part000 [of s n]
  obtain u where eq: "shapes (next_part000 s (TransformEnd n)) =
      map (\<lambda>shape. if shape_id shape = shape_id u then u else shape) (shapes s)"
    and u: "case find (\<lambda>sh. shape_id sh = node_id n) (shapes s) of
        None \<Rightarrow> shape_id u = None \<and> shape_type u = None
      | Some sh0 \<Rightarrow>
          u = sh0\<lparr>shape_x := node_x n, shape_y := node_y n,
                  shape_width := \<bar>node_width n * node_scaleX n\<bar>,
                  shape_height := \<bar>node_height n * node_scaleY n\<bar>,
                  shape_radius :=
                    (case node_radius n of None \<Rightarrow> 0 | Some r \<Rightarrow> \<bar>r * node_scaleX n\<bar>)\<rparr>"
    by blast
  have "shape_id u \<notin> insert (node_id n) T \<longrightarrow> unused_zero u"
  proof (cases "find (\<lambda>sh. shape_id sh = node_id n) (shapes s)")
    case None
    with u show ?thesis
      by (simp add: unused_zero_def)
  next
    case (Some sh0)
    with u find_Some_id [OF Some] show ?thesis
      by simp
  qed
  moreover from Q have "\<forall>sh \<in> set (shapes s).
      shape_id sh \<notin> insert (node_id n) T \<longrightarrow> unused_zero sh"
    by simp
  ultimately show ?thesis
    unfolding eq by auto
qed

lemma untargeted_run_PaintApp:
  assumes "\<forall>sh \<in> set (shapes s). shape_id sh \<notin> T \<longrightarrow> unused_zero sh"
  shows "\<forall>sh \<in> set (shapes (run_PaintApp s evs)).
    shape_id sh \<notin> T \<union> set (targets evs) \<longrightarrow> unused_zero sh"
  using assms
proof (induction evs arbitrary: s T)
  case Nil
  then show ?case
    by (simp add: run_PaintApp_Nil)
next
  case (Cons ev evs)
  show ?case
  proof (cases "is_TransformEnd ev")
    case True
    then obtain n where n: "ev = TransformEnd n"
      by (cases ev) simp_all
    from Cons.prems
    have "\<forall>sh \<in> set (shapes (next_PaintApp s (TransformEnd n))).
      shape_id sh \<notin> insert (node_id n) T \<longrightarrow> unused_zero sh"
      by (rule transform_end_untargeted_PaintApp)
    from Cons.IH [OF this] show ?thesis
      by (simp add: n run_PaintApp_Cons)
  next
    case False
    have "\<forall>sh \<in> set (shapes (next_PaintApp s ev)). shape_id sh \<notin> T \<longrightarrow> unused_zero sh"
      using Cons.prems _ _ _ False
      by (rule step_preserves_PaintApp) (simp_all add: unused_zero_def)
    from Cons.IH [OF this] False show ?thesis
      by (simp add: run_PaintApp_Cons targets_Cons split: event.splits)
  qed
qed

lemma untargeted_run_part000:
  assumes "\<forall>sh \<in> set (shapes s). shape_id sh \<notin> T \<longrightarrow> unused_zero sh"
    and "\<forall>ns. newShape s = Some ns \<longrightarrow> shape_id ns \<notin> T \<longrightarrow> unused_zero ns"
  shows "\<forall>sh \<in> set (shapes (run_part000 s evs)).
    shape_id sh \<notin> T \<union> set (targets evs) \<longrightarrow> unused_zero sh"
  using assms
proof (induction evs arbitrary: s T)
  case Nil
  then show ?case
    by (simp add: run_part000_Nil)
next
  case (Cons ev evs)
  show ?case
  proof (cases "is_TransformEnd ev")
    case True
    then obtain n where n: "ev = TransformEnd n"
      by (cases ev) simp_all
    from Cons.prems(1)
    have 1: "\<forall>sh \<in> set (shapes (next_part000 s (TransformEnd n))).
      shape_id sh \<notin> insert (node_id n) T \<longrightarrow> unused_zero sh"
      by (rule transform_end_untargeted_part000)
    from Cons.prems(2)
    have 2: "\<forall>ns. newShape (next_part000 s (TransformEnd n)) = Some ns \<longrightarrow>
      shape_id ns \<notin> insert (node_id n) T \<longrightarrow> unused_zero ns"
      by (simp add: newShape_transform_end_part000)
    from Cons.IH [OF 1 2] show ?thesis
      by (simp add: n run_part000_Cons)
  next
    case False
    have "(\<forall>sh \<in> set (shapes (next_part000 s ev)). shape_id sh \<notin> T \<longrightarrow> unused_zero sh) \<and>
      (\<forall>ns. newShape (next_part000 s ev) = Some ns \<longrightarrow> shape_id ns \<notin> T \<longrightarrow> unused_zero ns)"
      using Cons.prems _ _ _ False
      by (rule step_preserves_part000) (simp_all add: unused_zero_def)
    then have 1: "\<forall>sh \<in> set (shapes (next_part000 s ev)). shape_id sh \<notin> T \<longrightarrow> unused_zero sh"
      and 2: "\<forall>ns. newShape (next_part000 s ev) = Some ns \<longrightarrow>
        shape_id ns \<notin> T \<longrightarrow> unused_zero ns"
      by simp_all
    from Cons.IH [OF 1 2] False show ?thesis
      by (simp add: run_part000_Cons targets_Cons split: event.splits)
  qed
qed

text \<open>
  With distinct ids and a target the last render drew, the shape found under the node's
  id is the one the node was drawn for. A \<^verbatim>\<open>Rect\<close> node then rewrites a rectangle and
  gives it radius 0; a \<^verbatim>\<open>Circle\<close> node rewrites a circle, whose id joins the set of
  targeted circles.
\<close>

lemma typed_fields_zero_mono:
  "typed_fields_zero T sh \<Longrightarrow> T \<subseteq> T' \<Longrightarrow> typed_fields_zero T' sh"
  by (auto simp add: typed_fields_zero_def)

lemma typed_fields_zero_empty: "typed_fields_zero {} sh \<longleftrightarrow> unused_zero sh"
  by (auto simp add: typed_fields_zero_def unused_zero_def)

lemma transform_end_rendered_PaintApp:
  assumes P: "\<forall>sh \<in> set (shapes s). typed_fields_zero T sh"
    and d: "distinct (map shape_id (shapes s))" and r: "rendered_as (shapes s) n"
  shows "\<forall>sh \<in> set (shapes (next_PaintApp s (TransformEnd n))).
    typed_fields_zero (T \<union> set (circle_targets [TransformEnd n])) sh"
proof -
  from r obtain sh0 where sh0: "sh0 \<in> set (shapes s)" "shape_id sh0 = node_id n"
    and kind: "shape_type sh0 = Some RECTANGLE \<and> node_radius n = None \<or>
      shape_type sh0 = Some CIRCLE \<and> node_radius n \<noteq> None"
    unfolding rendered_as_def by blast
  have f: "find (\<lambda>sh. shape_id sh = node_id n) (shapes s) = Some sh0"
    using find_by_id [OF d sh0(1)] sh0(2) by simp
  from shapes_transform_end_PaintApp [of s n]
  obtain u where eq: "shapes (next_PaintApp s (TransformEnd n)) =
      map (\<lambda>shape. if shape_id shape = shape_id u then u else shape) (shapes s)"
    and u: "u = sh0\<lparr>shape_x := node_x n, shape_y := node_y n,
      shape_width := node_width n * node_scaleX n,
      shape_height := node_height n * node_scaleY n,
      shape_radius := (case node_radius n of None \<Rightarrow> 0 | Some r \<Rightarrow> r * node_scaleX n)\<rparr>"
    unfolding f by auto
  have "typed_fields_zero (T \<union> set (circle_targets [TransformEnd n])) u"
    using kind sh0(2) by (auto simp add: u typed_fields_zero_def)
  moreover from P have "\<forall>sh \<in> set (shapes s).
      typed_fields_zero (T \<union> set (circle_targets [TransformEnd n])) sh"
    by (auto elim: typed_fields_zero_mono)
  ultimately show ?thesis
    unfolding eq by auto
qed

lemma transform_end_rendered_part000:
  assumes P: "\<forall>sh \<in> set (shapes s). typed_fields_zero T sh"
    and d: "distinct (map shape_id (shapes s))" and r: "rendered_as (shapes s) n"
  shows "\<forall>sh \<in> set (shapes (next_part000 s (TransformEnd n))).
    typed_fields_zero (T \<union> set (circle_targets [TransformEnd n])) sh"
proof -
  from r obtain sh0 where sh0: "sh0 \<in> set (shapes s)" "shape_id sh0 = node_id n"
    and kind: "shape_type sh0 = Some RECTANGLE \<and> node_radius n = None \<or>
      shape_type sh0 = Some CIRCLE \<and> node_radius n \<noteq> None"
    unfolding rendered_as_def by blast
  have f: "find (\<lambda>sh. shape_id sh = node_id n) (shapes s) = Some sh0"
    using find_by_id [OF d sh0(1)] sh0(2) by simp
  from shapes_transform_end_part000 [of s n]
  obtain u where eq: "shapes (next_part000 s (TransformEnd n)) =
      map (\<lambda>shape. if shape_id shape = shape_id u then u else shape) (shapes s)"
    and u: "u = sh0\<lparr>shape_x := node_x n, shape_y := node_y n,
      shape_width := \<bar>node_width n * node_scaleX n\<bar>,
      shape_height := \<bar>node_height n * node_scaleY n\<bar>,
      shape_radius := (case node_radius n of None \<Rightarrow> 0 | Some r \<Rightarrow> \<bar>r * node_scaleX n\<bar>)\<rparr>"
    unfolding f by auto
  have "typed_fields_zero (T \<union> set (circle_targets [TransformEnd n])) u"
    using kind sh0(2) by (auto simp add: u typed_fields_zero_def)
  moreover from P have "\<forall>sh \<in> set (shapes s).
      typed_fields_zero (T \<union> set (circle_targets [TransformEnd n])) sh"
    by (auto elim: typed_fields_zero_mono)
  ultimately show ?thesis
    unfolding eq by auto
qed

lemma typed_fields_run_PaintApp:
  assumes "\<forall>sh \<in> set (shapes s). typed_fields_zero T sh"
    and "distinct (map shape_id (shapes s))"
    and "distinct (creations_PaintApp s evs)"
    and "\<forall>t \<in> set (creations_PaintApp s evs). Some (IdNum t) \<notin> set (map shape_id (shapes s))"
    and "targets_rendered_PaintApp s evs"
  shows "\<forall>sh \<in> set (shapes (run_PaintApp s evs)).
    typed_fields_zero (T \<union> set (circle_targets evs)) sh"
  using assms
proof (induction evs arbitrary: s T)
  case Nil
  then show ?case
    by (simp add: run_PaintApp_Nil)
next
  case (Cons ev evs)
  note fresh = fresh_step_PaintApp [OF Cons.prems(2,3,4)]
  from Cons.prems(5) have t: "targets_rendered_PaintApp (next_PaintApp s ev) evs"
    by simp
  have "\<forall>sh \<in> set (shapes (next_PaintApp s ev)).
    typed_fields_zero (T \<union> set (circle_targets [ev])) sh"
  proof (cases "is_TransformEnd ev")
    case True
    then obtain n where n: "ev = TransformEnd n"
      by (cases ev) simp_all
    with Cons.prems(5) have "rendered_as (shapes s) n"
      by simp
    with Cons.prems(1,2) show ?thesis
      unfolding n by (rule transform_end_rendered_PaintApp)
  next
    case False
    then have c: "circle_targets [ev] = []"
      by (cases ev) simp_all
    have "\<forall>sh \<in> set (shapes (next_PaintApp s ev)). typed_fields_zero T sh"
      using Cons.prems(1) _ _ _ False
      by (rule step_preserves_PaintApp) (simp_all add: typed_fields_zero_def)
    then show ?thesis
      by (simp add: c)
  qed
  from Cons.IH [OF this] fresh t
  have "\<forall>sh \<in> set (shapes (run_PaintApp (next_PaintApp s ev) evs)).
    typed_fields_zero (T \<union> set (circle_targets [ev]) \<union> set (circle_targets evs)) sh"
    by blast
  moreover have "T \<union> set (circle_targets [ev]) \<union> set (circle_targets evs) =
      T \<union> set (circle_targets (ev # evs))"
    by (cases ev) auto
  ultimately show ?case
    by (simp add: run_PaintApp_Cons)
qed

lemma typed_fields_run_part000:
  assumes "\<forall>sh \<in> set (shapes s). typed_fields_zero T sh"
    and "\<forall>ns. newShape s = Some ns \<longrightarrow> typed_fields_zero T ns"
    and "distinct (map shape_id (shapes s))"
    and "distinct (creations_part000 s evs)"
    and "\<forall>t \<in> set (creations_part000 s evs).
      Some (IdStr (''shape-'' @ decimal t)) \<notin> set (map shape_id (shapes s))"
    and "targets_rendered_part000 s evs"
  shows "\<forall>sh \<in> set (shapes (run_part000 s evs)).
    typed_fields_zero (T \<union> set (circle_targets evs)) sh"
  using assms
proof (induction evs arbitrary: s T)
  case Nil
  then show ?case
    by (simp add: run_part000_Nil)
next
  case (Cons ev evs)
  note fresh = fresh_step_part000 [OF Cons.prems(3,4,5)]
  from Cons.prems(6) have t: "targets_rendered_part000 (next_part000 s ev) evs"
    by simp
  have "(\<forall>sh \<in> set (shapes (next_part000 s ev)).
      typed_fields_zero (T \<union> set (circle_targets [ev])) sh) \<and>
    (\<forall>ns. newShape (next_part000 s ev) = Some ns \<longrightarrow>
      typed_fields_zero (T \<union> set (circle_targets [ev])) ns)"
  proof (cases "is_TransformEnd ev")
    case True
    then obtain n where n: "ev = TransformEnd n"
      by (cases ev) simp_all
    with Cons.prems(6) have "rendered_as (shapes s) n"
      by simp
    with Cons.prems(1,3)
    have "\<forall>sh \<in> set (shapes (next_part000 s (TransformEnd n))).
      typed_fields_zero (T \<union> set (circle_targets [TransformEnd n])) sh"
      by (rule transform_end_rendered_part000)
    moreover from Cons.prems(2)
    have "\<forall>ns. newShape (next_part000 s (TransformEnd n)) = Some ns \<longrightarrow>
      typed_fields_zero (T \<union> set (circle_targets [TransformEnd n])) ns"
      unfolding newShape_transform_end_part000 by (auto elim: typed_fields_zero_mono)
    ultimately show ?thesis
      unfolding n by (rule conjI)
  next
    case False
    then have c: "circle_targets [ev] = []"
      by (cases ev) simp_all
    have "(\<forall>sh \<in> set (shapes (next_part000 s ev)). typed_fields_zero T sh) \<and>
      (\<forall>ns. newShape (next_part000 s ev) = Some ns \<longrightarrow> typed_fields_zero T ns)"
      using Cons.prems(1,2) _ _ _ False
      by (rule step_preserves_part000) (simp_all add: typed_fields_zero_def)
    then show ?thesis
      by (simp add: c)
  qed
  then have 1: "\<forall>sh \<in> set (shapes (next_part000 s ev)).
      typed_fields_zero (T \<union> set (circle_targets [ev])) sh"
    and 2: "\<forall>ns. newShape (next_part000 s ev) = Some ns \<longrightarrow>
      typed_fields_zero (T \<union> set (circle_targets [ev])) ns"
    by simp_all
  from Cons.IH [OF 1 2] fresh t
  have "\<forall>sh \<in> set (shapes (run_part000 (next_part000 s ev) evs)).
    typed_fields_zero (T \<union> set (circle_targets [ev]) \<union> set (circle_targets evs)) sh"
    by blast
  moreover have "T \<union> set (circle_targets [ev]) \<union> set (circle_targets evs) =
      T \<union> set (circle_targets (ev # evs))"
    by (cases ev) auto
  ultimately show ?case
    by (simp add: run_part000_Cons)
qed

text \<open>
  C4 as stated fails in both files: after the circle of \<open>one_circle\<close> is drawn (radius
  5), the end of a drag that did not even move it calls \<^verbatim>\<open>handleTransformEnd\<close> with
  its \<^verbatim>\<open>Circle\<close> node, whose \<^verbatim>\<open>width()\<close> and \<^verbatim>\<open>height()\<close> are the diameter 10, and the
  circle in the list gets width 10 and height 10. The rectangle half fails too once two
  creations read the same timestamp: in \<^verbatim>\<open>src/components/PaintApp.js\<close>, with a rectangle
  and a circle both of id 5, the end of a drag of the circle finds the rectangle first
  under that id, and both entries become rectangles of radius 5.
\<close>

theorem dragged_circle_gets_width:
  "shapes (run_PaintApp initial_PaintApp
      (one_circle @ [TransformEnd (dragged_circle (IdNum 5))])) =
     [\<lparr>shape_id = Some (IdNum 5), shape_type = Some CIRCLE, shape_x = 0, shape_y = 0,
       shape_width = 10, shape_height = 10, shape_radius = 5,
       shape_fill = Some ''#0000cc''\<rparr>] \<and>
   shapes (run_part000 initial_part000
      (one_circle @ [TransformEnd (dragged_circle (IdStr ''shape-5''))])) =
     [\<lparr>shape_id = Some (IdStr ''shape-5''), shape_type = Some CIRCLE, shape_x = 0,
       shape_y = 0, shape_width = 10, shape_height = 10, shape_radius = 5,
       shape_fill = Some ''#0000cc''\<rparr>] \<and>
   creations_PaintApp initial_PaintApp
      (colliding_shapes @ [TransformEnd (dragged_colliding_circle (IdNum 5))]) = [5, 5] \<and>
   targets_rendered_PaintApp initial_PaintApp
      (colliding_shapes @ [TransformEnd (dragged_colliding_circle (IdNum 5))]) \<and>
   shapes (run_PaintApp initial_PaintApp
      (colliding_shapes @ [TransformEnd (dragged_colliding_circle (IdNum 5))])) =
     [\<lparr>shape_id = Some (IdNum 5), shape_type = Some RECTANGLE, shape_x = 100, shape_y = 100,
       shape_width = 10, shape_height = 10, shape_radius = 5,
       shape_fill = Some ''#aa0000''\<rparr>,
      \<lparr>shape_id = Some (IdNum 5), shape_type = Some RECTANGLE, shape_x = 100, shape_y = 100,
       shape_width = 10, shape_height = 10, shape_radius = 5,
       shape_fill = Some ''#aa0000''\<rparr>]"
proof -
  have "shapes (run_PaintApp initial_PaintApp
      (one_circle @ [TransformEnd (dragged_circle (IdNum 5))])) =
     [\<lparr>shape_id = Some (IdNum 5), shape_type = Some CIRCLE, shape_x = 0, shape_y = 0,
       shape_width = 10, shape_height = 10, shape_radius = 5,
       shape_fill = Some ''#0000cc''\<rparr>]"
    by (simp add: run_PaintApp_append one_circle_PaintApp)
      (simp add: trace_defs handlers_PaintApp dragged_circle_def spread_def)
  moreover have "shapes (run_part000 initial_part000
      (one_circle @ [TransformEnd (dragged_circle (IdStr ''shape-5''))])) =
     [\<lparr>shape_id = Some (IdStr ''shape-5''), shape_type = Some CIRCLE, shape_x = 0,
       shape_y = 0, shape_width = 10, shape_height = 10, shape_radius = 5,
       shape_fill = Some ''#0000cc''\<rparr>]"
    by (simp add: run_part000_append one_circle_part000)
      (simp add: trace_defs handlers_part000 dragged_circle_def spread_def)
  moreover have "creations_PaintApp initial_PaintApp
      (colliding_shapes @ [TransformEnd (dragged_colliding_circle (IdNum 5))]) = [5, 5]"
    by (simp add: colliding_shapes_def trace_defs handlers_PaintApp sqrt_25)
  moreover have "targets_rendered_PaintApp initial_PaintApp
      (colliding_shapes @ [TransformEnd (dragged_colliding_circle (IdNum 5))])"
    by (simp add: colliding_shapes_def trace_defs handlers_PaintApp sqrt_25 rendered_as_def
        dragged_colliding_circle_def)
  moreover have "shapes (run_PaintApp initial_PaintApp
      (colliding_shapes @ [TransformEnd (dragged_colliding_circle (IdNum 5))])) =
     [\<lparr>shape_id = Some (IdNum 5), shape_type = Some RECTANGLE, shape_x = 100, shape_y = 100,
       shape_width = 10, shape_height = 10, shape_radius = 5,
       shape_fill = Some ''#aa0000''\<rparr>,
      \<lparr>shape_id = Some (IdNum 5), shape_type = Some RECTANGLE, shape_x = 100, shape_y = 100,
       shape_width = 10, shape_height = 10, shape_radius = 5,
       shape_fill = Some ''#aa0000''\<rparr>]"
    by (simp add: colliding_shapes_def trace_defs handlers_PaintApp sqrt_25
        dragged_colliding_circle_def spread_def)
  ultimately show ?thesis
    by (intro conjI)
qed

text \<open>
  C4, amended. In every reachable state of either file, every shape whose id no
  drag-end or transform-end has targeted has the fields its type does not use at 0: a
  circle width and height, a rectangle the radius. When moreover no two creations read
  the same timestamp and every drag-end and transform-end targets a node the last
  render drew, every rectangle has radius 0, and every circle has width 0 and height 0
  unless a drag-end or transform-end targeted its own \<^verbatim>\<open>Circle\<close> node. (Such an event
  writes the node's width and height, times the scale factors, into the circle.)
\<close>

theorem unused_fields_zero_unless_targeted:
  "(\<forall>sh \<in> set (shapes (run_PaintApp initial_PaintApp evs)).
      shape_id sh \<notin> set (targets evs) \<longrightarrow> unused_zero sh) \<and>
   (\<forall>sh \<in> set (shapes (run_part000 initial_part000 evs)).
      shape_id sh \<notin> set (targets evs) \<longrightarrow> unused_zero sh) \<and>
   (distinct (creations_PaintApp initial_PaintApp evs) \<and>
    targets_rendered_PaintApp initial_PaintApp evs \<longrightarrow>
      (\<forall>sh \<in> set (shapes (run_PaintApp initial_PaintApp evs)).
         typed_fields_zero (set (circle_targets evs)) sh)) \<and>
   (distinct (creations_part000 initial_part000 evs) \<and>
    targets_rendered_part000 initial_part000 evs \<longrightarrow>
      (\<forall>sh \<in> set (shapes (run_part000 initial_part000 evs)).
         typed_fields_zero (set (circle_targets evs)) sh))"
  (is "?P1 \<and> ?P2 \<and> ?P3 \<and> ?P4")
proof -
  have i: "\<forall>sh \<in> set (shapes initial_PaintApp). Q sh"
    "\<forall>sh \<in> set (shapes initial_part000). Q sh"
    "\<forall>ns. newShape initial_part000 = Some ns \<longrightarrow> Q' ns"
    "distinct (map shape_id (shapes initial_PaintApp))"
    "distinct (map shape_id (shapes initial_part000))"
    "\<forall>t \<in> X. i t \<notin> set (map shape_id (shapes initial_PaintApp))"
    "\<forall>t \<in> X. i t \<notin> set (map shape_id (shapes initial_part000))" for Q Q' X i
    by (simp_all add: initial_PaintApp_def initial_part000_def)
  have "\<forall>sh \<in> set (shapes (run_PaintApp initial_PaintApp evs)).
      shape_id sh \<notin> {} \<union> set (targets evs) \<longrightarrow> unused_zero sh"
    using i(1) by (rule untargeted_run_PaintApp)
  then have 1: ?P1
    by simp
  have "\<forall>sh \<in> set (shapes (run_part000 initial_part000 evs)).
      shape_id sh \<notin> {} \<union> set (targets evs) \<longrightarrow> unused_zero sh"
    using i(2,3) by (rule untargeted_run_part000)
  then have 2: ?P2
    by simp
  have 3: ?P3
  proof (intro impI, elim conjE)
    assume "distinct (creations_PaintApp initial_PaintApp evs)"
      "targets_rendered_PaintApp initial_PaintApp evs"
    with i(1,4) have "\<forall>sh \<in> set (shapes (run_PaintApp initial_PaintApp evs)).
        typed_fields_zero ({} \<union> set (circle_targets evs)) sh"
      by (intro typed_fields_run_PaintApp i(6))
    then show "\<forall>sh \<in> set (shapes (run_PaintApp initial_PaintApp evs)).
        typed_fields_zero (set (circle_targets evs)) sh"
      by simp
  qed
  have 4: ?P4
  proof (intro impI, elim conjE)
    assume "distinct (creations_part000 initial_part000 evs)"
      "targets_rendered_part000 initial_part000 evs"
    with i(2,3,5) have "\<forall>sh \<in> set (shapes (run_part000 initial_part000 evs)).
        typed_fields_zero ({} \<union> set (circle_targets evs)) sh"
      by (intro typed_fields_run_part000 i(7))
    then show "\<forall>sh \<in> set (shapes (run_part000 initial_part000 evs)).
        typed_fields_zero (set (circle_targets evs)) sh"
      by simp
  qed
  show ?thesis
    by (intro conjI 1 2 3 4)
qed

lemma stretched_PaintApp:
  "distinct (creations_PaintApp initial_PaintApp
      (two_rectangles @ [TransformEnd (stretched_rectangle (IdNum 5))])) \<and>
   targets_rendered_PaintApp initial_PaintApp
      (two_rectangles @ [TransformEnd (stretched_rectangle (IdNum 5))])"
  by (simp add: two_rectangles_def trace_defs handlers_PaintApp rendered_as_def
      stretched_rectangle_def)

lemma stretched_part000:
  "distinct (creations_part000 initial_part000
      (two_rectangles @ [TransformEnd (stretched_rectangle (IdStr ''shape-5''))])) \<and>
   targets_rendered_part000 initial_part000
      (two_rectangles @ [TransformEnd (stretched_rectangle (IdStr ''shape-5''))])"
  by (simp add: two_rectangles_def trace_defs handlers_part000 rendered_as_def
      stretched_rectangle_def decimal_5 decimal_7)

lemma stretched_shapes_PaintApp:
  "shapes (run_PaintApp initial_PaintApp
      (two_rectangles @ [TransformEnd (stretched_rectangle (IdNum 5))])) =
     [\<lparr>shape_id = Some (IdNum 5), shape_type = Some RECTANGLE, shape_x = 10, shape_y = 10,
       shape_width = 80, shape_height = 70, shape_radius = 0, shape_fill = Some ''#aa0000''\<rparr>,
      \<lparr>shape_id = Some (IdNum 7), shape_type = Some RECTANGLE, shape_x = 100, shape_y = 100,
       shape_width = - 10, shape_height = 30, shape_radius = 0,
       shape_fill = Some ''#00bb00''\<rparr>]"
  by (simp add: run_PaintApp_append two_rectangles_PaintApp)
    (simp add: trace_defs handlers_PaintApp stretched_rectangle_def spread_def)

lemma stretched_shapes_part000:
  "shapes (run_part000 initial_part000
      (two_rectangles @ [TransformEnd (stretched_rectangle (IdStr ''shape-5''))])) =
     [\<lparr>shape_id = Some (IdStr ''shape-5''), shape_type = Some RECTANGLE, shape_x = 10,
       shape_y = 10, shape_width = 80, shape_height = 70, shape_radius = 0,
       shape_fill = Some ''#aa0000''\<rparr>,
      \<lparr>shape_id = Some (IdStr ''shape-7''), shape_type = Some RECTANGLE, shape_x = 100,
       shape_y = 100, shape_width = - 10, shape_height = 30, shape_radius = 0,
       shape_fill = Some ''#00bb00''\<rparr>]"
  by (simp add: run_part000_append two_rectangles_part000)
    (simp add: trace_defs handlers_part000 stretched_rectangle_def spread_def)

text \<open>
  Instances in both files: the drawn circle, which no event has targeted, has width and
  height 0; after the first of the two rectangles is stretched to twice its width, no
  circle has been targeted and both rectangles have radius 0 (by
  \<open>typed_fields_zero_empty\<close>, \<open>typed_fields_zero {}\<close> is \<open>unused_zero\<close>).
\<close>

theorem unused_fields_zero_unless_targeted_witness:
  "targets one_circle = [] \<and>
   list_all unused_zero (shapes (run_PaintApp initial_PaintApp one_circle)) \<and>
   list_all unused_zero (shapes (run_part000 initial_part000 one_circle)) \<and>
   circle_targets (two_rectangles @ [TransformEnd (stretched_rectangle (IdNum 5))]) = [] \<and>
   list_all (typed_fields_zero {})
     (shapes (run_PaintApp initial_PaintApp
        (two_rectangles @ [TransformEnd (stretched_rectangle (IdNum 5))]))) \<and>
   circle_targets (two_rectangles @ [TransformEnd (stretched_rectangle (IdStr ''shape-5''))]) =
     [] \<and>
   list_all (typed_fields_zero {})
     (shapes (run_part000 initial_part000
        (two_rectangles @ [TransformEnd (stretched_rectangle (IdStr ''shape-5''))])))"
proof -
  let ?ta = "two_rectangles @ [TransformEnd (stretched_rectangle (IdNum 5))]"
  let ?tb = "two_rectangles @ [TransformEnd (stretched_rectangle (IdStr ''shape-5''))]"
  have t: "targets one_circle = []"
    by (simp add: one_circle_def drawGesture_def)
  have c: "circle_targets ?ta = []" "circle_targets ?tb = []"
    by (simp_all add: two_rectangles_def drawGesture_def stretched_rectangle_def)
  from unused_fields_zero_unless_targeted [of one_circle]
  have 1: "list_all unused_zero (shapes (run_PaintApp initial_PaintApp one_circle))"
    "list_all unused_zero (shapes (run_part000 initial_part000 one_circle))"
    by (simp_all add: t list_all_iff)
  from unused_fields_zero_unless_targeted [of ?ta] stretched_PaintApp
  have 2: "\<forall>sh \<in> set (shapes (run_PaintApp initial_PaintApp ?ta)).
      typed_fields_zero (set (circle_targets ?ta)) sh"
    by blast
  from unused_fields_zero_unless_targeted [of ?tb] stretched_part000
  have 3: "\<forall>sh \<in> set (shapes (run_part000 initial_part000 ?tb)).
      typed_fields_zero (set (circle_targets ?tb)) sh"
    by blast
  from 2 have ta: "list_all (typed_fields_zero {}) (shapes (run_PaintApp initial_PaintApp ?ta))"
    unfolding c by (simp add: list_all_iff)
  from 3 have tb: "list_all (typed_fields_zero {}) (shapes (run_part000 initial_part000 ?tb))"
    unfolding c by (simp add: list_all_iff)
  from t c 1 ta tb show ?thesis
    by (intro conjI)
qed


end
